theory Spec2Isabelle
  imports Main
begin

section \<open>JavaScript values used by SdmxJsonCatalogItem.js\<close>

text \<open>
  A JavaScript array may have holes (indices below its length that were never written) and
  may hold the value \<open>undefined\<close>. The two differ: \<open>filter\<close>, \<open>map\<close>, \<open>forEach\<close> and
  \<open>indexOf\<close> skip holes, but visit an element that is \<open>undefined\<close>; \<open>join\<close> prints both
  as the empty string. A slot of an array is therefore one of three things.
\<close>

datatype 'a slot = Hole | Undefined | Elem 'a

type_synonym 'a array = "'a slot list"

text \<open>The only exception the modelled code can raise is a \<open>TypeError\<close>: reading a property
  of \<open>undefined\<close>.\<close>

datatype error = TypeError

text \<open>\<open>xs[i] = v\<close>: an index at or beyond the length extends the array, leaving holes.\<close>

definition assignIndex :: "'a array \<Rightarrow> nat \<Rightarrow> 'a \<Rightarrow> 'a array" where
  "assignIndex xs i v =
     (if i < length xs then xs[i := Elem v]
      else xs @ replicate (i - length xs) Hole @ [Elem v])"

text \<open>\<open>xs[i]\<close> followed by a property access: a hole, an \<open>undefined\<close> element and an index
  out of range all read as \<open>undefined\<close>, and the property access throws.\<close>

definition element :: "'a array \<Rightarrow> nat \<Rightarrow> error + 'a" where
  "element xs i =
     (if i < length xs then (case xs ! i of Elem v \<Rightarrow> Inr v | _ \<Rightarrow> Inl TypeError)
      else Inl TypeError)"

text \<open>The same read on a dense array (one decoded from JSON, or built by \<open>push\<close>).\<close>

definition elementOf :: "'a list \<Rightarrow> nat \<Rightarrow> error + 'a" where
  "elementOf xs i = (if i < length xs then Inr (xs ! i) else Inl TypeError)"

text \<open>\<open>xs.indexOf(y)\<close> and \<open>s.lastIndexOf(c)\<close> on dense sequences: the first (last) position
  holding \<open>y\<close>, or \<open>-1\<close>.\<close>

fun indexOf :: "'a list \<Rightarrow> 'a \<Rightarrow> int" where
  "indexOf [] y = - 1"
| "indexOf (x # xs) y =
     (if x = y then 0 else (let r = indexOf xs y in if r < 0 then - 1 else r + 1))"

fun lastIndexOf :: "'a list \<Rightarrow> 'a \<Rightarrow> int" where
  "lastIndexOf [] y = - 1"
| "lastIndexOf (x # xs) y =
     (let r = lastIndexOf xs y in if 0 \<le> r then r + 1 else if x = y then 0 else - 1)"

text \<open>\<open>xs.indexOf(undefined)\<close> on an array with holes: holes are skipped, only an element
  that is the value \<open>undefined\<close> is found.\<close>

fun indexOfUndefined :: "'a array \<Rightarrow> int" where
  "indexOfUndefined [] = - 1"
| "indexOfUndefined (x # xs) =
     (if x = Undefined then 0
      else (let r = indexOfUndefined xs in if r < 0 then - 1 else r + 1))"

text \<open>\<open>String(n)\<close> for a non-negative integer: its decimal digits.\<close>

definition digitChar :: "nat \<Rightarrow> char" where
  "digitChar d = ''0123456789'' ! d"

fun numberToString :: "nat \<Rightarrow> string" where
  "numberToString n =
     (if n < 10 then [digitChar n] else numberToString (n div 10) @ [digitChar (n mod 10)])"

declare numberToString.simps [simp del]

text \<open>\<open>xs.join(sep)\<close> on strings.\<close>

fun join :: "string \<Rightarrow> string list \<Rightarrow> string" where
  "join sep [] = []"
| "join sep [x] = x"
| "join sep (x # y # ys) = x @ sep @ join sep (y # ys)"

text \<open>\<open>xs.join(sep)\<close> on an array of numbers: a hole or \<open>undefined\<close> prints as the empty
  string.\<close>

definition slotToString :: "nat slot \<Rightarrow> string" where
  "slotToString s = (case s of Elem n \<Rightarrow> numberToString n | _ \<Rightarrow> [])"

definition joinNumbers :: "string \<Rightarrow> nat list \<Rightarrow> string" where
  "joinNumbers sep xs = join sep (map numberToString xs)"

definition joinArray :: "string \<Rightarrow> nat array \<Rightarrow> string" where
  "joinArray sep xs = join sep (map slotToString xs)"

text \<open>\<open>s.toLowerCase()\<close>. A character of this model is a code unit below 256, that is one
  of the characters U+0000 to U+00FF. Among them the upper-case letters are \<open>A\<close> to \<open>Z\<close>
  (65 to 90), \<open>A\<close> with grave to \<open>O\<close> with diaeresis (192 to 214) and \<open>O\<close> with stroke to
  thorn (216 to 222); the lower case of each is the letter 32 places on. Every other
  character below 256 is its own lower case.\<close>

definition toLowerCaseChar :: "char \<Rightarrow> char" where
  "toLowerCaseChar c =
     (let n = (of_char c :: nat)
      in if (65 \<le> n \<and> n \<le> 90) \<or> (192 \<le> n \<and> n \<le> 214) \<or> (216 \<le> n \<and> n \<le> 222)
         then char_of (n + 32)
         else c)"

definition toLowerCase :: "string \<Rightarrow> string" where
  "toLowerCase s = map toLowerCaseChar s"

text \<open>\<open>range(length)\<close> of the source: \<open>[0, 1, ..., length - 1]\<close>.\<close>

definition range_js :: "nat \<Rightarrow> nat list" where
  "range_js n = [0..<n]"

text \<open>Running a fallible step over a list, stopping at the first exception.\<close>

fun mapE :: "('a \<Rightarrow> error + 'b) \<Rightarrow> 'a list \<Rightarrow> error + 'b list" where
  "mapE f [] = Inr []"
| "mapE f (x # xs) =
     (case f x of Inl e \<Rightarrow> Inl e
      | Inr y \<Rightarrow> (case mapE f xs of Inl e \<Rightarrow> Inl e | Inr ys \<Rightarrow> Inr (y # ys)))"

section \<open>Region column naming\<close>

text \<open>\<open>getRegionColumnName\<close> of lib/Models/SdmxJsonCatalogItem.js.\<close>

definition getRegionColumnName :: "string \<Rightarrow> string" where
  "getRegionColumnName regionTypeId =
     (let lowerCaseId = toLowerCase regionTypeId;
          underscoreIndex = lastIndexOf lowerCaseId (CHR ''_'')
      in if 0 \<le> underscoreIndex
         then take (nat underscoreIndex) lowerCaseId @ ''_code'' @ drop (nat underscoreIndex) lowerCaseId
         else lowerCaseId @ ''_code'')"

text \<open>The earlier variant of the file does not lower-case inside \<open>getRegionColumnName\<close>;
  its only caller, \<open>buildRegionColumn\<close>, lower-cases the id before the call.\<close>

definition getRegionColumnName_v0 :: "string \<Rightarrow> string" where
  "getRegionColumnName_v0 regionTypeId =
     (let underscoreIndex = lastIndexOf regionTypeId (CHR ''_'')
      in if 0 \<le> underscoreIndex
         then take (nat underscoreIndex) regionTypeId @ ''_code'' @ drop (nat underscoreIndex) regionTypeId
         else regionTypeId @ ''_code'')"

definition regionColumnName_v0 :: "string \<Rightarrow> string" where
  "regionColumnName_v0 rawId = getRegionColumnName_v0 (toLowerCase rawId)"

section \<open>The wire format and the decoded dimension information\<close>

text \<open>An entry \<open>{id, name}\<close> of a dimension's value list, and an entry
  \<open>{keyPosition, id, name, values}\<close> of \<open>structure.dimensions.series\<close>.\<close>

record sdmxValue =
  val_id :: string
  val_name :: string

record dimension =
  keyPosition :: nat
  dim_id :: string
  dim_name :: string
  dim_values :: "sdmxValue list"

text \<open>The result object of \<open>calculateSpecialDimensions\<close>.\<close>

record specialDimensions =
  regionDimensionIndex :: "nat option"
  regionTypeDimensionIndex :: "nat option"
  regionTypeCount :: nat
  timePeriodDimensionIndex :: "nat option"

text \<open>The result object of \<open>calculateShownDimensionNamesAndValues\<close>; its five arrays are
  the source's \<open>values\<close>, \<open>names\<close>, \<open>ids\<close>, \<open>dimensionNames\<close> and \<open>dimensionIds\<close>.\<close>

record dimensionInfo =
  di_values :: "nat list array"
  di_names :: "string list array"
  di_ids :: "string list array"
  di_dimensionNames :: "string array"
  di_dimensionIds :: "string array"

text \<open>The result object of \<open>calculateShownDimensionCombinations\<close>: \<open>values\<close> and \<open>names\<close>.\<close>

record shownDimensionCombinations =
  sc_values :: "nat list list"
  sc_names :: "string list list"

text \<open>Modelled from the spec: \<open>VariableConcept\<close> and \<open>DisplayVariablesConcept\<close> of lib/Map,
  which are not among the sources. A parent concept owns an ordered sequence of child
  selection items, each independently active or inactive. The parent's name is the slot
  read from \<open>dimensionNames\<close>.\<close>

record variableConcept =
  vc_name :: string
  vc_isActive :: bool

record displayVariablesConcept =
  concept_name :: "string slot"
  concept_items :: "variableConcept list"

text \<open>Modelled from the spec: \<open>TableColumn\<close> of lib/Map, which is not among the sources.
  A column is \<open>{name, values, isActive}\<close> with one value per region row; a value is \<open>null\<close>,
  a region id, or whatever scalar the observation record holds first (\<open>NoScalar\<close> when the
  record is empty and the read gives \<open>undefined\<close>). The scalar type is left open: the code
  below never inspects it.\<close>

datatype 'v cell = Null | NoScalar | Scalar 'v | RegionId string

record 'v column =
  col_name :: string
  col_values :: "'v cell list"
  col_isActive :: bool

text \<open>The fields of the catalog item that the modelled functions read or write. \<open>None\<close>
  stands for a field that is still \<open>undefined\<close>.\<close>

record 'v item =
  url :: string
  dataflowUrl :: "string option"
  regionDimensionId :: string
  regionTypeDimensionId :: string
  timePeriodDimensionId :: string
  regionType :: "string option"
  item_specialDimensions :: "specialDimensions option"
  item_dimensionInfo :: "dimensionInfo option"
  item_combinations :: "nat list list option"
  item_concepts :: "displayVariablesConcept list"
  item_columns :: "'v column list"

text \<open>An entry of \<open>dataSets[0].series\<close>: \<open>observations\<close> maps a time index to the list of
  scalars observed then. The sparse observation map sends a colon-joined key to its entry.\<close>

record 'v seriesEntry =
  observations :: "nat \<rightharpoonup> 'v list"

type_synonym 'v series = "string \<rightharpoonup> 'v seriesEntry"

section \<open>Array operations with holes and exceptions\<close>

definition bindE :: "error + 'a \<Rightarrow> ('a \<Rightarrow> error + 'b) \<Rightarrow> error + 'b" where
  "bindE m f = (case m of Inl e \<Rightarrow> Inl e | Inr x \<Rightarrow> f x)"

text \<open>\<open>xs[i].length\<close> for every slot of an array of arrays; a slot that holds no array has
  no length.\<close>

definition arrayLengths :: "'a list array \<Rightarrow> nat option list" where
  "arrayLengths xs = map (\<lambda>s. case s of Elem v \<Rightarrow> Some (length v) | _ \<Rightarrow> None) xs"

text \<open>\<open>xs.filter(p)\<close> with a callback \<open>p(element, index)\<close> that may throw: holes are not
  visited and do not appear in the result.\<close>

fun filterFrom :: "nat \<Rightarrow> ('a slot \<Rightarrow> nat \<Rightarrow> error + bool) \<Rightarrow> 'a array \<Rightarrow> error + 'a array" where
  "filterFrom i p [] = Inr []"
| "filterFrom i p (x # xs) =
     (if x = Hole then filterFrom (Suc i) p xs
      else bindE (p x i) (\<lambda>keep.
           bindE (filterFrom (Suc i) p xs) (\<lambda>ys. Inr (if keep then x # ys else ys))))"

definition filterArray :: "('a slot \<Rightarrow> nat \<Rightarrow> error + bool) \<Rightarrow> 'a array \<Rightarrow> error + 'a array" where
  "filterArray p xs = filterFrom 0 p xs"

text \<open>Reading every slot of an array as a defined value (for a call such as \<open>pool.map\<close> on
  each of them); a slot that is not a value throws.\<close>

definition slotValue :: "'a slot \<Rightarrow> error + 'a" where
  "slotValue s = (case s of Elem v \<Rightarrow> Inr v | _ \<Rightarrow> Inl TypeError)"

definition slotValues :: "'a array \<Rightarrow> error + 'a list" where
  "slotValues xs = mapE slotValue xs"

text \<open>Modelled from the spec: \<open>arrayProduct\<close> of lib/Core, which is not among the sources.
  The cartesian product of the pools in lexicographic order, the first pool varying
  slowest: \<open>[[0], [0], [0, 1, 2], [0, 1]]\<close> gives
  \<open>[[0, 0, 0, 0], [0, 0, 0, 1], [0, 0, 1, 0], [0, 0, 1, 1], [0, 0, 2, 0], [0, 0, 2, 1]]\<close>.\<close>

fun arrayProduct :: "'a list list \<Rightarrow> 'a list list" where
  "arrayProduct [] = [[]]"
| "arrayProduct (pool # pools) = [x # rest. x \<leftarrow> pool, rest \<leftarrow> arrayProduct pools]"

section \<open>The dimension catalogue decoder\<close>

text \<open>The first loop of \<open>calculateShownDimensionNamesAndValues\<close>: one push per entry onto
  \<open>values\<close>, \<open>names\<close>, \<open>dimensionNames\<close> and \<open>dimensionIds\<close>; \<open>ids\<close> stays empty.\<close>

definition initialDimensionInfo :: "nat \<Rightarrow> dimensionInfo" where
  "initialDimensionInfo n =
     \<lparr> di_values = replicate n (Elem []),
       di_names = replicate n (Elem []),
       di_ids = [],
       di_dimensionNames = replicate n Undefined,
       di_dimensionIds = replicate n Undefined \<rparr>"

text \<open>The body of the second loop, for the entry \<open>thisSeries\<close>.\<close>

definition decodeEntry :: "dimensionInfo \<Rightarrow> dimension \<Rightarrow> dimensionInfo" where
  "decodeEntry result thisSeries =
     (let k = keyPosition thisSeries; vs = dim_values thisSeries in
      \<lparr> di_values = assignIndex (di_values result) k (range_js (length vs)),
        di_names = assignIndex (di_names result) k
                     (if 1 < length vs then map val_name vs else [ [] ]),
        di_ids = assignIndex (di_ids result) k (map val_id vs),
        di_dimensionNames = assignIndex (di_dimensionNames result) k (dim_name thisSeries),
        di_dimensionIds = assignIndex (di_dimensionIds result) k (dim_id thisSeries) \<rparr>)"

text \<open>The check after the second loop: the lines written to the console.\<close>

definition missingDimensionReport :: "dimensionInfo \<Rightarrow> string list" where
  "missingDimensionReport result =
     (if 0 \<le> indexOfUndefined (di_values result)
      then [''Missing dimension at key position ''
              @ numberToString (nat (indexOfUndefined (di_values result)))]
      else [])"

text \<open>\<open>removeIndex(index)\<close>: nothing for an undefined index; otherwise the slot of
  \<open>values\<close> is cut to its first element and the slot of \<open>names\<close> becomes \<open>['']\<close>. Reading
  \<open>values[index]\<close> throws when that slot holds no array.\<close>

definition removeIndex :: "nat option \<Rightarrow> dimensionInfo \<Rightarrow> error + dimensionInfo" where
  "removeIndex index result =
     (case index of
        None \<Rightarrow> Inr result
      | Some i \<Rightarrow>
          bindE (element (di_values result) i) (\<lambda>vs.
            Inr (result \<lparr> di_values := assignIndex (di_values result) i (take 1 vs),
                          di_names := assignIndex (di_names result) i [ [] ] \<rparr>)))"

text \<open>\<open>calculateShownDimensionNamesAndValues(structureSeries, specialDimensions)\<close>: the
  console output together with the result, or the exception.\<close>

definition calculateShownDimensionNamesAndValues ::
    "dimension list \<Rightarrow> specialDimensions option \<Rightarrow> string list \<times> (error + dimensionInfo)" where
  "calculateShownDimensionNamesAndValues structureSeries specialDims =
     (let result = foldl decodeEntry (initialDimensionInfo (length structureSeries)) structureSeries;
          report = missingDimensionReport result
      in (report,
          case specialDims of
            None \<Rightarrow> Inr result
          | Some sd \<Rightarrow>
              bindE (removeIndex (regionDimensionIndex sd) result)
                (removeIndex (timePeriodDimensionIndex sd))))"

text \<open>\<open>calculateDimensionNamesAndValues(structureSeries)\<close> of the earlier variant: no \<open>ids\<close>
  and no \<open>dimensionIds\<close>, the dimension name is recorded only for a dimension with more than
  one value, and no special dimension is hidden here.\<close>

definition decodeEntry_v0 :: "dimensionInfo \<Rightarrow> dimension \<Rightarrow> dimensionInfo" where
  "decodeEntry_v0 result thisSeries =
     (let k = keyPosition thisSeries; vs = dim_values thisSeries in
      result \<lparr> di_values := assignIndex (di_values result) k (range_js (length vs)),
               di_names := assignIndex (di_names result) k
                     (if 1 < length vs then map val_name vs else [ [] ]),
               di_dimensionNames :=
                     (if 1 < length vs
                      then assignIndex (di_dimensionNames result) k (dim_name thisSeries)
                      else di_dimensionNames result) \<rparr>)"

definition calculateDimensionNamesAndValues ::
    "dimension list \<Rightarrow> string list \<times> dimensionInfo" where
  "calculateDimensionNamesAndValues structureSeries =
     (let result = foldl decodeEntry_v0
                     ((initialDimensionInfo (length structureSeries)) \<lparr> di_dimensionIds := [] \<rparr>)
                     structureSeries
      in (missingDimensionReport result, result))"

section \<open>The special-role resolver and the combination enumerator\<close>

text \<open>The body of the loop of \<open>calculateSpecialDimensions\<close>, for the entry \<open>d\<close>; the loop
  has no \<open>break\<close>.\<close>

definition specialDimensionsStep ::
    "'v item \<Rightarrow> specialDimensions \<Rightarrow> dimension \<Rightarrow> specialDimensions" where
  "specialDimensionsStep item result d =
     (if dim_id d = regionDimensionId item
      then result \<lparr> regionDimensionIndex := Some (keyPosition d) \<rparr>
      else if dim_id d = regionTypeDimensionId item
      then result \<lparr> regionTypeDimensionIndex := Some (keyPosition d),
                    regionTypeCount := length (dim_values d) \<rparr>
      else if dim_id d = timePeriodDimensionId item
      then result \<lparr> timePeriodDimensionIndex := Some (keyPosition d) \<rparr>
      else result)"

definition calculateSpecialDimensions :: "'v item \<Rightarrow> dimension list \<Rightarrow> specialDimensions" where
  "calculateSpecialDimensions item structureSeries =
     foldl (specialDimensionsStep item)
       \<lparr> regionDimensionIndex = None, regionTypeDimensionIndex = None,
         regionTypeCount = 0, timePeriodDimensionIndex = None \<rparr>
       structureSeries"

text \<open>The callback returned by \<open>getNonTimeDimensionFilter(item)\<close>; it reads
  \<open>item._specialDimensions\<close> when it is called.\<close>

definition getNonTimeDimensionFilter :: "'v item \<Rightarrow> 'a \<Rightarrow> nat \<Rightarrow> error + bool" where
  "getNonTimeDimensionFilter item x dimensionIndex =
     (case item_specialDimensions item of
        None \<Rightarrow> Inl TypeError
      | Some sd \<Rightarrow> Inr (Some dimensionIndex \<noteq> timePeriodDimensionIndex sd))"

definition calculateShownDimensionCombinations ::
    "'v item \<Rightarrow> error + shownDimensionCombinations" where
  "calculateShownDimensionCombinations item =
     (case item_dimensionInfo item of
        None \<Rightarrow> Inl TypeError
      | Some di \<Rightarrow>
          bindE (filterArray (getNonTimeDimensionFilter item) (di_values di)) (\<lambda>vs.
          bindE (slotValues vs) (\<lambda>valuePools.
          bindE (filterArray (getNonTimeDimensionFilter item) (di_names di)) (\<lambda>ns.
          bindE (slotValues ns) (\<lambda>namePools.
            Inr \<lparr> sc_values = arrayProduct valuePools,
                  sc_names = arrayProduct namePools \<rparr>)))))"

section \<open>The column synthesizer\<close>

definition getRegionTypeId :: "'v item \<Rightarrow> dimension list \<Rightarrow> error + string option" where
  "getRegionTypeId item structureSeries =
     (case item_specialDimensions item of
        None \<Rightarrow> Inl TypeError
      | Some sd \<Rightarrow>
          (case regionTypeDimensionIndex sd of
             Some t \<Rightarrow>
               bindE (elementOf structureSeries t) (\<lambda>d.
               bindE (elementOf (dim_values d) 0) (\<lambda>v. Inr (Some (val_id v))))
           | None \<Rightarrow>
               (case regionDimensionIndex sd of
                  Some r \<Rightarrow>
                    bindE (elementOf structureSeries r) (\<lambda>d.
                      (case regionType item of
                         Some t \<Rightarrow> Inr (Some t)
                       | None \<Rightarrow> Inr (Some (dim_id d))))
                | None \<Rightarrow> Inr None)))"

text \<open>\<open>buildRegionColumn(item, structureSeries)\<close>: \<open>None\<close> is the bare \<open>return\<close>. The
  bound \<open>regionCount\<close> and the ids are read from the same entry of \<open>structureSeries\<close>, so the
  loop is a map over that entry's values.\<close>

definition buildRegionColumn :: "'v item \<Rightarrow> dimension list \<Rightarrow> error + 'v column option" where
  "buildRegionColumn item structureSeries =
     (case item_specialDimensions item of
        None \<Rightarrow> Inl TypeError
      | Some sd \<Rightarrow>
          (case regionDimensionIndex sd of
             None \<Rightarrow> Inr None
           | Some r \<Rightarrow>
               bindE (elementOf structureSeries r) (\<lambda>d.
               bindE (getRegionTypeId item structureSeries) (\<lambda>regionTypeId.
                 (case regionTypeId of
                    None \<Rightarrow> Inl TypeError
                  | Some t \<Rightarrow>
                      Inr (Some \<lparr> col_name = getRegionColumnName t,
                                  col_values = map (\<lambda>v. RegionId (val_id v)) (dim_values d),
                                  col_isActive = False \<rparr>))))))"

text \<open>\<open>defined(series[key]) ? series[key].observations[0][0] : null\<close>.\<close>

definition observationCell :: "'v series \<Rightarrow> string \<Rightarrow> error + 'v cell" where
  "observationCell series key =
     (case series key of
        None \<Rightarrow> Inr Null
      | Some entry \<Rightarrow>
          (case observations entry 0 of
             None \<Rightarrow> Inl TypeError
           | Some scalars \<Rightarrow> Inr (case scalars of [] \<Rightarrow> NoScalar | v # _ \<Rightarrow> Scalar v)))"

text \<open>The inner loop of \<open>buildValueColumns\<close> over the region indices still to visit. The
  array \<open>dimensionIndices\<close> is written in place, so it is passed on as written.\<close>

fun regionLoop :: "'v series \<Rightarrow> nat \<Rightarrow> nat array \<Rightarrow> nat list \<Rightarrow> error + 'v cell list" where
  "regionLoop series r dimensionIndices [] = Inr []"
| "regionLoop series r dimensionIndices (regionIndex # rest) =
     (let written = assignIndex dimensionIndices r regionIndex;
          key = joinArray '':'' written
      in bindE (observationCell series key) (\<lambda>v.
         bindE (regionLoop series r written rest) (\<lambda>vs. Inr (v # vs))))"

text \<open>The body of the outer loop of \<open>buildValueColumns\<close>, for one combination index;
  \<open>regionCount\<close> is \<open>structureSeries[specialDimensions.regionDimensionIndex].values.length\<close>.\<close>

definition buildValueColumn ::
    "shownDimensionCombinations \<Rightarrow> dimension list \<Rightarrow> 'v series \<Rightarrow> specialDimensions
       \<Rightarrow> nat \<Rightarrow> error + 'v column" where
  "buildValueColumn shown structureSeries series sd combinationIndex =
     (let uniqueValue = (length (sc_values shown) \<le> 1);
          dimensionIndices = map Elem (sc_values shown ! combinationIndex)
      in bindE (elementOf (sc_names shown) combinationIndex) (\<lambda>names.
         (case regionDimensionIndex sd of
            None \<Rightarrow> Inl TypeError
          | Some r \<Rightarrow>
              bindE (elementOf structureSeries r) (\<lambda>d.
              (let regionCount = length (dim_values d) in
               bindE (regionLoop series r dimensionIndices [0..<regionCount]) (\<lambda>vals.
                 Inr \<lparr> col_name = (if uniqueValue then ''Value''
                                   else join '' '' (filter (\<lambda>name. name \<noteq> []) names)),
                       col_values = vals,
                       col_isActive = uniqueValue \<rparr>))))))"

definition buildValueColumns ::
    "shownDimensionCombinations \<Rightarrow> dimension list \<Rightarrow> 'v series \<Rightarrow> specialDimensions
       \<Rightarrow> error + 'v column list" where
  "buildValueColumns shown structureSeries series sd =
     mapE (buildValueColumn shown structureSeries series sd) [0..<length (sc_values shown)]"

definition calculateActiveConceptValues :: "displayVariablesConcept list \<Rightarrow> nat list list" where
  "calculateActiveConceptValues concepts =
     map (\<lambda>parent. filter (\<lambda>i. vc_isActive (concept_items parent ! i))
                      [0..<length (concept_items parent)])
         concepts"

text \<open>\<open>buildTotalColumns(item)\<close>. \<open>TableColumn.sumValues\<close> is not among the sources and the
  spec leaves its treatment of \<open>null\<close> open, so it is a parameter.\<close>

definition includedColumns :: "int list \<Rightarrow> 'c list \<Rightarrow> 'c list" where
  "includedColumns indicesIntoCombinations valueColumns =
     map snd (filter (\<lambda>(i, column). 0 \<le> indexOf indicesIntoCombinations (int i))
                     (enumerate 0 valueColumns))"

definition buildTotalColumns ::
    "('v column list \<Rightarrow> 'v cell list) \<Rightarrow> 'v item \<Rightarrow> error + 'v column list" where
  "buildTotalColumns sumValues item =
     (let activeConceptValues = calculateActiveConceptValues (item_concepts item) in
      if length activeConceptValues = 0 then Inr []
      else
        (let activeCombinations = arrayProduct activeConceptValues in
         case item_combinations item of
           None \<Rightarrow> Inl TypeError
         | Some combinations \<Rightarrow>
             (let stringifiedCombinations = map (joinNumbers '','') combinations;
                  indicesIntoCombinations =
                    map (\<lambda>activeCombination.
                           indexOf stringifiedCombinations (joinNumbers '','' activeCombination))
                        activeCombinations;
                  valueColumns = take (length combinations) (drop 1 (item_columns item))
              in Inr [\<lparr> col_name = ''Total selected'',
                        col_values = sumValues (includedColumns indicesIntoCombinations valueColumns),
                        col_isActive = True \<rparr>])))"

text \<open>Modelled from the spec: \<open>TableColumn.sumValues\<close> (\<open>lib/Map/TableColumn\<close>) is not among
  the sources. The spec calls it the element-wise (region-wise) sum of the columns and leaves
  open what a \<open>null\<close> does to a row. Here the sum of a row is the sum of the numbers found in
  it, and \<open>null\<close> for a row in which no column holds a number; on columns without \<open>null\<close>
  every reading of the spec gives the same sum.\<close>

fun scalarOf :: "int cell \<Rightarrow> int list" where
  "scalarOf (Scalar v) = [v]"
| "scalarOf c = []"

definition sumCells :: "int cell list \<Rightarrow> int cell" where
  "sumCells cells =
     (case concat (map scalarOf cells) of
        [] \<Rightarrow> Null
      | v # vs \<Rightarrow> Scalar (sum_list (v # vs)))"

definition sumValuesOfSpec :: "int column list \<Rightarrow> int cell list" where
  "sumValuesOfSpec columns = map sumCells (transpose (map col_values columns))"

text \<open>In the words of the spec: the value columns that the total sums are exactly those whose
  registry sub-tuple string-equals some active combination, the active combinations being the
  cartesian product of each concept's active child indices. The value columns are the columns
  after the region column, one per registry entry.\<close>

definition matchingValueColumns :: "'v item \<Rightarrow> 'v column list" where
  "matchingValueColumns item =
     (case item_combinations item of
        None \<Rightarrow> []
      | Some combinations \<Rightarrow>
          map snd
            (filter (\<lambda>(combination, column).
                       joinNumbers '','' combination
                         \<in> set (map (joinNumbers '','')
                                  (arrayProduct (calculateActiveConceptValues (item_concepts item)))))
                    (zip combinations (take (length combinations) (drop 1 (item_columns item))))))"

section \<open>The filter-expression request string and the recompute controller\<close>

text \<open>\<open>values.join('+')\<close> on an array of strings in which an id read out of range is
  \<open>undefined\<close> and prints as the empty string.\<close>

definition slotString :: "string slot \<Rightarrow> string" where
  "slotString s = (case s of Elem t \<Rightarrow> t | _ \<Rightarrow> [])"

definition joinStrings :: "string \<Rightarrow> string array \<Rightarrow> string" where
  "joinStrings sep xs = join sep (map slotString xs)"

text \<open>The \<open>map\<close> callback of \<open>calculateDimensionRequestString\<close>, run over the filtered ids
  from position \<open>dimensionIndex\<close> on, with the counter \<open>nextConceptIndex\<close> carried along.\<close>

fun activeDimensionValues ::
    "'v item \<Rightarrow> nat list list \<Rightarrow> nat \<Rightarrow> nat \<Rightarrow> string list array \<Rightarrow> error + string array list" where
  "activeDimensionValues item activeConceptValues nextConceptIndex dimensionIndex [] = Inr []"
| "activeDimensionValues item activeConceptValues nextConceptIndex dimensionIndex (theseIds # rest) =
     (case item_specialDimensions item of
        None \<Rightarrow> Inl TypeError
      | Some sd \<Rightarrow>
          if Some dimensionIndex = regionDimensionIndex sd
          then bindE (activeDimensionValues item activeConceptValues nextConceptIndex
                        (Suc dimensionIndex) rest) (\<lambda>ts. Inr ([Elem []] # ts))
          else
            bindE (slotValue theseIds) (\<lambda>ids.
              if length ids = 1
              then bindE (activeDimensionValues item activeConceptValues nextConceptIndex
                            (Suc dimensionIndex) rest) (\<lambda>ts. Inr (map Elem ids # ts))
              else
                bindE (elementOf activeConceptValues nextConceptIndex) (\<lambda>active.
                bindE (activeDimensionValues item activeConceptValues (Suc nextConceptIndex)
                         (Suc dimensionIndex) rest) (\<lambda>ts.
                  Inr (map (\<lambda>activeIndex. if activeIndex < length ids
                                           then Elem (ids ! activeIndex) else Undefined)
                           active # ts)))))"

definition calculateDimensionRequestString :: "'v item \<Rightarrow> error + string" where
  "calculateDimensionRequestString item =
     (let activeConceptValues = calculateActiveConceptValues (item_concepts item) in
      case item_dimensionInfo item of
        None \<Rightarrow> Inl TypeError
      | Some di \<Rightarrow>
          bindE (filterArray (getNonTimeDimensionFilter item) (di_ids di)) (\<lambda>nonTimeDimensionIds.
          bindE (activeDimensionValues item activeConceptValues 0 0 nonTimeDimensionIds) (\<lambda>tokens.
            Inr (join ''.'' (map (joinStrings ''+'') tokens)))))"

text \<open>What a call of \<open>changedActiveItems\<close> does besides writing to the console: it replaces
  the table's columns (\<open>updateColumns\<close>), or starts \<open>loadAndBuildTable(item, url)\<close>, or
  nothing.\<close>

datatype 'v effect = UpdateColumns "'v column list" | LoadAndBuildTable string | NoEffect

text \<open>\<open>changedActiveItems(item)\<close>: the console lines and the effect, or the exception.\<close>

definition changedActiveItems ::
    "('v column list \<Rightarrow> 'v cell list) \<Rightarrow> 'v item \<Rightarrow> error + string list \<times> 'v effect" where
  "changedActiveItems sumValues item =
     (case dataflowUrl item of
        None \<Rightarrow>
          (case item_combinations item of
             None \<Rightarrow> Inl TypeError
           | Some combinations \<Rightarrow>
               (let columns = take (length combinations + 1) (item_columns item) in
                if 0 < length columns
                then bindE (buildTotalColumns sumValues item) (\<lambda>total.
                       Inr ([''changedActiveItems''], UpdateColumns (columns @ total)))
                else Inr ([''changedActiveItems''], NoEffect)))
      | Some _ \<Rightarrow>
          bindE (calculateDimensionRequestString item) (\<lambda>dimensionRequestString.
            (let url0 = url item;
                 url1 = (if url0 = [] \<or> last url0 \<noteq> CHR ''/'' then url0 @ ''/'' else url0);
                 url2 = url1 @ dimensionRequestString @ ''/all'';
                 url3 = url item
             in Inr ([''changedActiveItems'', ''Would download '' @ url2],
                     LoadAndBuildTable url3))))"

section \<open>The concept/combination bridge\<close>

text \<open>\<open>xs.filter(p)\<close> on a dense array, the callback taking the index as well.\<close>

fun filterListFrom :: "nat \<Rightarrow> ('a \<Rightarrow> nat \<Rightarrow> error + bool) \<Rightarrow> 'a list \<Rightarrow> error + 'a list" where
  "filterListFrom i p [] = Inr []"
| "filterListFrom i p (x # xs) =
     bindE (p x i) (\<lambda>keep.
     bindE (filterListFrom (Suc i) p xs) (\<lambda>ys. Inr (if keep then x # ys else ys)))"

text \<open>\<open>nonTrivialFilter(_, i)\<close> of \<open>setConceptsAndCombinations\<close>.\<close>

definition nonTrivialFilter :: "'v item \<Rightarrow> 'a \<Rightarrow> nat \<Rightarrow> error + bool" where
  "nonTrivialFilter item x i =
     (case item_dimensionInfo item of
        None \<Rightarrow> Inl TypeError
      | Some di \<Rightarrow> bindE (element (di_values di) i) (\<lambda>vs. Inr (1 < length vs)))"

text \<open>The callback building one parent concept from \<open>dimName\<close> and \<open>nonTrivialNames[i]\<close>.\<close>

definition makeConcept :: "string list array \<Rightarrow> nat \<times> string slot \<Rightarrow> error + displayVariablesConcept" where
  "makeConcept nonTrivialNames p =
     bindE (element nonTrivialNames (fst p)) (\<lambda>valueNames.
       Inr \<lparr> concept_name = snd p,
             concept_items = map (\<lambda>valueName. \<lparr> vc_name = valueName, vc_isActive = True \<rparr>)
                               valueNames \<rparr>)"

definition setConceptsAndCombinations ::
    "'v item \<Rightarrow> shownDimensionCombinations \<Rightarrow> error + 'v item" where
  "setConceptsAndCombinations item shown =
     (case item_dimensionInfo item of
        None \<Rightarrow> Inl TypeError
      | Some di \<Rightarrow>
          bindE (mapE (filterListFrom 0 (nonTrivialFilter item)) (sc_values shown)) (\<lambda>combinations.
          bindE (filterArray (nonTrivialFilter item) (di_dimensionNames di)) (\<lambda>nonTrivialDimensionNames.
          bindE (filterArray (nonTrivialFilter item) (di_names di)) (\<lambda>nonTrivialNames.
          bindE (mapE (makeConcept nonTrivialNames) (enumerate 0 nonTrivialDimensionNames)) (\<lambda>concepts.
            Inr (item \<lparr> item_combinations := Some combinations,
                        item_concepts := concepts \<rparr>))))))"

section \<open>The two loads\<close>

text \<open>The callback of \<open>loadDataflow\<close> that receives the decoded dataflow document, given
  its \<open>structure.dimensions.observation\<close>: the console lines and the item as written, or the
  exception. The first console line is \<open>console.log('Loaded from dataflow', item._dataflowUrl,
  structureSeries)\<close>: the words and the URL (\<open>undefined\<close> when the item has none), separated
  by a space; the rendering of the third argument, an array of objects, is left to the
  console and is not part of the line.\<close>

definition loadDataflow_then ::
    "'v item \<Rightarrow> dimension list \<Rightarrow> string list \<times> (error + 'v item)" where
  "loadDataflow_then item structureSeries =
     (let loaded = ''Loaded from dataflow '' @
                     (case dataflowUrl item of Some u \<Rightarrow> u | None \<Rightarrow> ''undefined'');
          sd = calculateSpecialDimensions item structureSeries;
          item1 = item \<lparr> item_specialDimensions := Some sd \<rparr>
      in if regionDimensionIndex sd = None then ([loaded, ''No regions defined.''], Inr item1)
         else
           (let decoded = calculateShownDimensionNamesAndValues structureSeries (Some sd) in
            (loaded # fst decoded,
             bindE (snd decoded) (\<lambda>di.
               (let item2 = item1 \<lparr> item_dimensionInfo := Some di \<rparr> in
                bindE (calculateShownDimensionCombinations item2)
                  (setConceptsAndCombinations item2))))))"

text \<open>The first callback of \<open>loadAndBuildTable\<close>, given the document's
  \<open>structure.dimensions.series\<close> and \<open>dataSets[0].series\<close>. \<open>buildRegionColumn\<close> returns a
  column here, since the region dimension index is defined when it is called.\<close>

definition loadAndBuildTable_then ::
    "('v column list \<Rightarrow> 'v cell list) \<Rightarrow> 'v item \<Rightarrow> dimension list \<Rightarrow> 'v series
       \<Rightarrow> string list \<times> (error + 'v item)" where
  "loadAndBuildTable_then sumValues item structureSeries series =
     (let sd = (case item_specialDimensions item of
                  Some sd0 \<Rightarrow> sd0
                | None \<Rightarrow> calculateSpecialDimensions item structureSeries);
          item1 = item \<lparr> item_specialDimensions := Some sd \<rparr>
      in if regionDimensionIndex sd = None then ([''No regions defined.''], Inr item1)
         else
           (let decoded = (case item_dimensionInfo item1 of
                             Some di0 \<Rightarrow> ([], Inr di0)
                           | None \<Rightarrow> calculateShownDimensionNamesAndValues structureSeries (Some sd))
            in (fst decoded,
                bindE (snd decoded) (\<lambda>di.
                  (let item2 = item1 \<lparr> item_dimensionInfo := Some di \<rparr> in
                   bindE (calculateShownDimensionCombinations item2) (\<lambda>shown.
                   bindE (case item_combinations item2 of
                            Some _ \<Rightarrow> Inr item2
                          | None \<Rightarrow> setConceptsAndCombinations item2 shown) (\<lambda>item3.
                   bindE (buildRegionColumn item3 structureSeries) (\<lambda>regionColumn.
                   bindE (buildValueColumns shown structureSeries series sd) (\<lambda>valueColumns.
                     (case regionColumn of
                        None \<Rightarrow> Inl TypeError
                      | Some rc \<Rightarrow>
                          (let item4 = item3 \<lparr> item_columns := rc # valueColumns \<rparr> in
                           bindE (buildTotalColumns sumValues item4) (\<lambda>totalColumns.
                             Inr (item4 \<lparr> item_columns :=
                                           item_columns item4 @ totalColumns \<rparr>)))))))))))))"

section \<open>The earlier variant of the file\<close>

text \<open>The result object of \<open>calculateRegionDimensionInfo\<close>.\<close>

record regionInfo =
  ri_regionDimensionIndex :: "nat option"
  ri_regionTypeDimensionIndex :: "nat option"
  ri_regionCount :: nat
  ri_regionTypeCount :: nat

definition regionInfoStep :: "'v item \<Rightarrow> regionInfo \<Rightarrow> dimension \<Rightarrow> regionInfo" where
  "regionInfoStep item result d =
     (if dim_id d = regionDimensionId item
      then result \<lparr> ri_regionDimensionIndex := Some (keyPosition d),
                    ri_regionCount := length (dim_values d) \<rparr>
      else if dim_id d = regionTypeDimensionId item
      then result \<lparr> ri_regionTypeDimensionIndex := Some (keyPosition d),
                    ri_regionTypeCount := length (dim_values d) \<rparr>
      else result)"

definition calculateRegionDimensionInfo :: "'v item \<Rightarrow> dimension list \<Rightarrow> regionInfo" where
  "calculateRegionDimensionInfo item structureSeries =
     foldl (regionInfoStep item)
       \<lparr> ri_regionDimensionIndex = None, ri_regionTypeDimensionIndex = None,
         ri_regionCount = 0, ri_regionTypeCount = 0 \<rparr>
       structureSeries"

text \<open>\<open>calculateNonRegionDimensionCombinations\<close>: the region and the region-type slots are
  cut to one value in the item's dimension information, which is returned as written
  together with the combinations. The spec does not say what \<open>arrayProduct\<close> does with a
  hole among its pools; the model stops with the exception there.\<close>

definition calculateNonRegionDimensionCombinations ::
    "dimensionInfo \<Rightarrow> regionInfo \<Rightarrow> error + dimensionInfo \<times> shownDimensionCombinations" where
  "calculateNonRegionDimensionCombinations dimensionInfo regionInfo =
     bindE (removeIndex (ri_regionDimensionIndex regionInfo) dimensionInfo) (\<lambda>di1.
     bindE (removeIndex (ri_regionTypeDimensionIndex regionInfo) di1) (\<lambda>di2.
     bindE (slotValues (di_values di2)) (\<lambda>valuePools.
     bindE (slotValues (di_names di2)) (\<lambda>namePools.
       Inr (di2, \<lparr> sc_values = arrayProduct valuePools,
                    sc_names = arrayProduct namePools \<rparr>)))))"

text \<open>\<open>buildValueColumns\<close> of the earlier variant: the region count is the one recorded by
  \<open>calculateRegionDimensionInfo\<close>; writing at an undefined index leaves the array as it is.\<close>

definition assignOptional :: "'a array \<Rightarrow> nat option \<Rightarrow> 'a \<Rightarrow> 'a array" where
  "assignOptional xs index v = (case index of None \<Rightarrow> xs | Some i \<Rightarrow> assignIndex xs i v)"

fun regionLoop_v0 :: "'v series \<Rightarrow> nat option \<Rightarrow> nat array \<Rightarrow> nat list \<Rightarrow> error + 'v cell list" where
  "regionLoop_v0 series r dimensionIndices [] = Inr []"
| "regionLoop_v0 series r dimensionIndices (regionIndex # rest) =
     (let written = assignOptional dimensionIndices r regionIndex;
          key = joinArray '':'' written
      in bindE (observationCell series key) (\<lambda>v.
         bindE (regionLoop_v0 series r written rest) (\<lambda>vs. Inr (v # vs))))"

definition buildValueColumn_v0 ::
    "shownDimensionCombinations \<Rightarrow> 'v series \<Rightarrow> regionInfo \<Rightarrow> nat \<Rightarrow> error + 'v column" where
  "buildValueColumn_v0 nonRegion series regionInfo combinationIndex =
     (let uniqueValue = (length (sc_values nonRegion) \<le> 1);
          dimensionIndices = map Elem (sc_values nonRegion ! combinationIndex)
      in bindE (elementOf (sc_names nonRegion) combinationIndex) (\<lambda>names.
         bindE (regionLoop_v0 series (ri_regionDimensionIndex regionInfo) dimensionIndices
                  [0..<ri_regionCount regionInfo]) (\<lambda>vals.
           Inr \<lparr> col_name = (if uniqueValue then ''Value''
                             else join '' '' (filter (\<lambda>name. name \<noteq> []) names)),
                 col_values = vals,
                 col_isActive = uniqueValue \<rparr>)))"

definition buildValueColumns_v0 ::
    "shownDimensionCombinations \<Rightarrow> 'v series \<Rightarrow> regionInfo \<Rightarrow> error + 'v column list" where
  "buildValueColumns_v0 nonRegion series regionInfo =
     mapE (buildValueColumn_v0 nonRegion series regionInfo) [0..<length (sc_values nonRegion)]"

section \<open>Selection toggles and example inputs\<close>

text \<open>Modelled from the spec: the selection tree lets the user toggle one child item; child
  \<open>j\<close> of parent concept \<open>i\<close> changes from active to inactive or back.\<close>

definition toggleItem :: "nat \<Rightarrow> nat \<Rightarrow> 'v item \<Rightarrow> 'v item" where
  "toggleItem i j item =
     item \<lparr> item_concepts :=
       (item_concepts item)[i := (item_concepts item ! i)
          \<lparr> concept_items := (concept_items (item_concepts item ! i))
               [j := (concept_items (item_concepts item ! i) ! j)
                   \<lparr> vc_isActive := \<not> vc_isActive (concept_items (item_concepts item ! i) ! j) \<rparr>] \<rparr>] \<rparr>"

definition mkValue :: "string \<Rightarrow> string \<Rightarrow> sdmxValue" where
  "mkValue i n = \<lparr> val_id = i, val_name = n \<rparr>"

definition mkDimension :: "nat \<Rightarrow> string \<Rightarrow> string \<Rightarrow> sdmxValue list \<Rightarrow> dimension" where
  "mkDimension k i n vs = \<lparr> keyPosition = k, dim_id = i, dim_name = n, dim_values = vs \<rparr>"

text \<open>A catalog item as \<open>_load\<close> leaves it before any document arrives: the four role ids
  at their defaults, nothing computed yet.\<close>

definition defaultItem :: "int item" where
  "defaultItem =
     \<lparr> url = ''http://x/data/DS'', dataflowUrl = None, regionDimensionId = ''REGION'',
       regionTypeDimensionId = ''REGIONTYPE'', timePeriodDimensionId = ''TIME_PERIOD'',
       regionType = None, item_specialDimensions = None, item_dimensionInfo = None,
       item_combinations = None, item_concepts = [], item_columns = [] \<rparr>"

text \<open>The end-to-end scenario of the spec: three regions, one region type, two measures,
  and a single observation for the first region's births.\<close>

definition birthsDeathsCatalogue :: "dimension list" where
  "birthsDeathsCatalogue =
     [mkDimension 0 ''REGION'' ''Region''
        [mkValue ''R1'' ''One'', mkValue ''R2'' ''Two'', mkValue ''R3'' ''Three''],
      mkDimension 1 ''REGIONTYPE'' ''Region type'' [mkValue ''LGA'' ''Local government area''],
      mkDimension 2 ''MEASURE'' ''Measure'' [mkValue ''BD_2'' ''Births'', mkValue ''BD_4'' ''Deaths'']]"

definition birthsSeries :: "int series" where
  "birthsSeries = [''0:0:0'' \<mapsto> \<lparr> observations = [0 \<mapsto> [10]] \<rparr>]"

text \<open>A catalogue whose time-period dimension has key position 0.\<close>

definition timeFirstCatalogue :: "dimension list" where
  "timeFirstCatalogue =
     [mkDimension 0 ''TIME_PERIOD'' ''Time'' [mkValue ''2011'' ''2011''],
      mkDimension 1 ''MEASURE'' ''Measure'' [mkValue ''BD_2'' ''Births'', mkValue ''BD_4'' ''Deaths''],
      mkDimension 2 ''REGION'' ''Region'' [mkValue ''R1'' ''One'', mkValue ''R2'' ''Two'']]"

text \<open>The same dimensions with two years. The keys of the observation map are in
  key-position order (time, measure, region): births of 2011 are 10 and 20, births of 2012
  are 100 and 200. The first map holds no observation of deaths; the second adds deaths of
  2011, 7 and 5, and of 2012, 70 and 50.\<close>

definition twoYearsCatalogue :: "dimension list" where
  "twoYearsCatalogue =
     [mkDimension 0 ''TIME_PERIOD'' ''Time'' [mkValue ''2011'' ''2011'', mkValue ''2012'' ''2012''],
      mkDimension 1 ''MEASURE'' ''Measure'' [mkValue ''BD_2'' ''Births'', mkValue ''BD_4'' ''Deaths''],
      mkDimension 2 ''REGION'' ''Region'' [mkValue ''R1'' ''One'', mkValue ''R2'' ''Two'']]"

definition twoYearsBirthsSeries :: "int series" where
  "twoYearsBirthsSeries =
     [''0:0:0'' \<mapsto> \<lparr> observations = [0 \<mapsto> [10]] \<rparr>,
      ''0:0:1'' \<mapsto> \<lparr> observations = [0 \<mapsto> [20]] \<rparr>,
      ''1:0:0'' \<mapsto> \<lparr> observations = [0 \<mapsto> [100]] \<rparr>,
      ''1:0:1'' \<mapsto> \<lparr> observations = [0 \<mapsto> [200]] \<rparr>]"

definition twoYearsSeries :: "int series" where
  "twoYearsSeries =
     twoYearsBirthsSeries
       (''0:1:0'' \<mapsto> \<lparr> observations = [0 \<mapsto> [7]] \<rparr>,
        ''0:1:1'' \<mapsto> \<lparr> observations = [0 \<mapsto> [5]] \<rparr>,
        ''1:1:0'' \<mapsto> \<lparr> observations = [0 \<mapsto> [70]] \<rparr>,
        ''1:1:1'' \<mapsto> \<lparr> observations = [0 \<mapsto> [50]] \<rparr>)"

text \<open>A catalogue listed in another order than that of the key positions: the measure, at
  key position 1, comes first in the array, the region dimension, at key position 0, second.
  The keys of the observation map are in key-position order (region, measure), with an
  observation for each of the three regions and both measures.\<close>

definition measureFirstCatalogue :: "dimension list" where
  "measureFirstCatalogue =
     [mkDimension 1 ''MEASURE'' ''Measure'' [mkValue ''BD_2'' ''Births'', mkValue ''BD_4'' ''Deaths''],
      mkDimension 0 ''REGION'' ''Region''
        [mkValue ''R1'' ''One'', mkValue ''R2'' ''Two'', mkValue ''R3'' ''Three'']]"

definition measureFirstSeries :: "int series" where
  "measureFirstSeries =
     [''0:0'' \<mapsto> \<lparr> observations = [0 \<mapsto> [10]] \<rparr>,
      ''1:0'' \<mapsto> \<lparr> observations = [0 \<mapsto> [20]] \<rparr>,
      ''2:0'' \<mapsto> \<lparr> observations = [0 \<mapsto> [30]] \<rparr>,
      ''0:1'' \<mapsto> \<lparr> observations = [0 \<mapsto> [1]] \<rparr>,
      ''1:1'' \<mapsto> \<lparr> observations = [0 \<mapsto> [2]] \<rparr>,
      ''2:1'' \<mapsto> \<lparr> observations = [0 \<mapsto> [3]] \<rparr>]"

definition timeRegionMeasureCatalogue :: "dimension list" where
  "timeRegionMeasureCatalogue =
     [mkDimension 0 ''TIME_PERIOD'' ''Time'' [mkValue ''2011'' ''2011''],
      mkDimension 1 ''REGION'' ''Region'' [mkValue ''R1'' ''One'', mkValue ''R2'' ''Two''],
      mkDimension 2 ''MEASURE'' ''Measure'' [mkValue ''BD_2'' ''Births'', mkValue ''BD_4'' ''Deaths'']]"

definition frequencyCatalogue :: "dimension list" where
  "frequencyCatalogue =
     [mkDimension 0 ''MEASURE'' ''Measure'' [mkValue ''BD_2'' ''Births'', mkValue ''BD_4'' ''Deaths''],
      mkDimension 1 ''FREQUENCY'' ''Frequency'' [mkValue ''A'' ''Annual''],
      mkDimension 2 ''REGION'' ''Region'' [mkValue ''R1'' ''One'', mkValue ''R2'' ''Two'']]"

text \<open>Two malformed catalogues of two entries: both entries at key position 0, and key
  positions 0 and 2. Each leaves slot 1 unfilled.\<close>

definition duplicateKeyCatalogue :: "dimension list" where
  "duplicateKeyCatalogue =
     [mkDimension 0 ''REGION'' ''Region'' [mkValue ''R1'' ''One'', mkValue ''R2'' ''Two''],
      mkDimension 0 ''MEASURE'' ''Measure'' [mkValue ''BD_2'' ''Births'', mkValue ''BD_4'' ''Deaths'']]"

definition gapCatalogue :: "dimension list" where
  "gapCatalogue =
     [mkDimension 0 ''REGION'' ''Region'' [mkValue ''R1'' ''One'', mkValue ''R2'' ''Two''],
      mkDimension 2 ''MEASURE'' ''Measure'' [mkValue ''BD_2'' ''Births'', mkValue ''BD_4'' ''Deaths'']]"

text \<open>Two catalogues of regions by age and sex: one with the time-period dimension at key
  position 0, one with it in last place.\<close>

definition timeRegionAgeSexCatalogue :: "dimension list" where
  "timeRegionAgeSexCatalogue =
     [mkDimension 0 ''TIME_PERIOD'' ''Time'' [mkValue ''2011'' ''2011'', mkValue ''2012'' ''2012''],
      mkDimension 1 ''REGION'' ''Region'' [mkValue ''R1'' ''One'', mkValue ''R2'' ''Two''],
      mkDimension 2 ''AGE'' ''Age''
        [mkValue ''Y'' ''Young'', mkValue ''M'' ''Middle'', mkValue ''O'' ''Old''],
      mkDimension 3 ''SEX'' ''Sex'' [mkValue ''F'' ''Female'', mkValue ''M'' ''Male'']]"

definition regionAgeSexTimeCatalogue :: "dimension list" where
  "regionAgeSexTimeCatalogue =
     [mkDimension 0 ''REGION'' ''Region'' [mkValue ''R1'' ''One'', mkValue ''R2'' ''Two''],
      mkDimension 1 ''REGIONTYPE'' ''Region type'' [mkValue ''LGA'' ''Local government area''],
      mkDimension 2 ''AGE'' ''Age''
        [mkValue ''Y'' ''Young'', mkValue ''M'' ''Middle'', mkValue ''O'' ''Old''],
      mkDimension 3 ''SEX'' ''Sex'' [mkValue ''F'' ''Female'', mkValue ''M'' ''Male''],
      mkDimension 4 ''TIME_PERIOD'' ''Time'' [mkValue ''2011'' ''2011'', mkValue ''2012'' ''2012'']]"

text \<open>Two region dimensions in one catalogue.\<close>

definition twoRegionsCatalogue :: "dimension list" where
  "twoRegionsCatalogue =
     [mkDimension 0 ''REGION'' ''Region'' [mkValue ''R1'' ''One''],
      mkDimension 1 ''REGION'' ''Region again'' [mkValue ''R2'' ''Two'']]"

text \<open>The item after a direct load of a data document, and after a load of a dataflow
  document (the item then has a dataflow URL).\<close>

definition exampleLoad ::
    "(int column list \<Rightarrow> int cell list) \<Rightarrow> dimension list \<Rightarrow> int series \<Rightarrow> int item" where
  "exampleLoad sumValues structureSeries series =
     (case snd (loadAndBuildTable_then sumValues defaultItem structureSeries series) of
        Inr loaded \<Rightarrow> loaded
      | Inl e \<Rightarrow> defaultItem)"

definition exampleDataflow :: "dimension list \<Rightarrow> int item" where
  "exampleDataflow structureSeries =
     (case snd (loadDataflow_then
                  (defaultItem \<lparr> dataflowUrl := Some ''http://x/dataflow/DS'' \<rparr>) structureSeries) of
        Inr loaded \<Rightarrow> loaded
      | Inl e \<Rightarrow> defaultItem)"

text \<open>The item state of the spec's request-string example: a dimension with the ids \<open>BD_2\<close>
  and \<open>BD_4\<close>, both active, and a singleton dimension with the id \<open>A\<close>.\<close>

definition requestExampleItem :: "int item" where
  "requestExampleItem =
     defaultItem
       \<lparr> dataflowUrl := Some ''http://x/dataflow/DS'',
         item_specialDimensions :=
           Some \<lparr> regionDimensionIndex = None, regionTypeDimensionIndex = None,
                  regionTypeCount = 0, timePeriodDimensionIndex = None \<rparr>,
         item_dimensionInfo :=
           Some \<lparr> di_values = [Elem [0, 1], Elem [0]],
                  di_names = [Elem [''Births'', ''Deaths''], Elem [ [] ]],
                  di_ids = [Elem [''BD_2'', ''BD_4''], Elem [''A'']],
                  di_dimensionNames = [Elem ''Measure'', Elem ''Frequency''],
                  di_dimensionIds = [Elem ''MEASURE'', Elem ''FREQUENCY''] \<rparr>,
         item_combinations := Some [[0], [1]],
         item_concepts :=
           [\<lparr> concept_name = Elem ''Measure'',
              concept_items = [\<lparr> vc_name = ''Births'', vc_isActive = True \<rparr>,
                               \<lparr> vc_name = ''Deaths'', vc_isActive = True \<rparr>] \<rparr>] \<rparr>"

section \<open>Properties of the helpers\<close>


lemma lastIndexOf_nonneg: "y \<in> set xs \<Longrightarrow> 0 \<le> lastIndexOf xs y"
  by (induction xs) (auto simp: Let_def)


section \<open>Region column naming: the convention\<close>



section \<open>The special-role resolver\<close>

theorem calculateSpecialDimensions_first_match_counterexample:
  "regionDimensionIndex (calculateSpecialDimensions defaultItem twoRegionsCatalogue) = Some 1
   \<and> dim_id (twoRegionsCatalogue ! 0) = regionDimensionId defaultItem
   \<and> keyPosition (twoRegionsCatalogue ! 0) = 0"
  by (simp add: calculateSpecialDimensions_def specialDimensionsStep_def defaultItem_def
      twoRegionsCatalogue_def mkDimension_def)

text \<open>
  C6, with the last match in place of the first. The loop of the special-role resolver
  runs over every entry without stopping, so for each role the key position recorded is that of the last entry that
  claims the role, and nothing is recorded when no entry claims it: the region role goes to
  the last entry whose id is the region id; the region-type role to the last entry whose id
  is the region-type id and not the region id; the time-period role to the last entry whose
  id is the time-period id and neither of the other two. Each role holds at most one key
  position.
\<close>

theorem calculateSpecialDimensions_last_match:
  "regionDimensionIndex (calculateSpecialDimensions item ss)
     = map_option keyPosition (find (\<lambda>d. dim_id d = regionDimensionId item) (rev ss))
   \<and> regionTypeDimensionIndex (calculateSpecialDimensions item ss)
     = map_option keyPosition
         (find (\<lambda>d. dim_id d \<noteq> regionDimensionId item \<and> dim_id d = regionTypeDimensionId item)
               (rev ss))
   \<and> timePeriodDimensionIndex (calculateSpecialDimensions item ss)
     = map_option keyPosition
         (find (\<lambda>d. dim_id d \<noteq> regionDimensionId item \<and> dim_id d \<noteq> regionTypeDimensionId item
                     \<and> dim_id d = timePeriodDimensionId item)
               (rev ss))"
proof (induction ss rule: rev_induct)
  case Nil
  show ?case by (simp add: calculateSpecialDimensions_def)
next
  case (snoc x xs)
  then show ?case
    by (simp add: calculateSpecialDimensions_def specialDimensionsStep_def)
qed

section \<open>The decoder's diagnostic\<close>

lemma set_assignIndex: "set (assignIndex xs i v) \<subseteq> set xs \<union> {Hole, Elem v}"
  by (auto simp: assignIndex_def dest: set_update_subset_insert [THEN subsetD])

lemma indexOfUndefined_absent: "Undefined \<notin> set xs \<Longrightarrow> indexOfUndefined xs = - 1"
  by (induction xs) auto

lemma decode_values_defined:
  "Undefined \<notin> set (di_values (foldl decodeEntry (initialDimensionInfo n) ss))"
proof (induction ss rule: rev_induct)
  case Nil
  show ?case by (simp add: initialDimensionInfo_def)
next
  case (snoc d ds)
  have "set (di_values (decodeEntry r d))
          \<subseteq> set (di_values r) \<union> {Hole, Elem (range_js (length (dim_values d)))}" for r
    using set_assignIndex [of "di_values r" "keyPosition d"]
    by (simp add: decodeEntry_def Let_def)
  with snoc show ?case by auto
qed

text \<open>The slots of \<open>values\<close> are pushed as empty arrays, never as \<open>undefined\<close>, so the
  search for \<open>undefined\<close> finds nothing and the console line is never written.\<close>

lemma decoder_never_reports: "fst (calculateShownDimensionNamesAndValues ss sd) = []"
  by (simp add: calculateShownDimensionNamesAndValues_def Let_def missingDimensionReport_def
      indexOfUndefined_absent decode_values_defined)

text \<open>
  C10, on two malformed catalogues. For the catalogue with both entries at key
  position 0 and for the one with key positions 0 and 2, slot 1 stays unfilled: it holds the
  empty array pushed by the first loop (length zero downstream), and nothing is written to
  the console.
\<close>

theorem missing_slot_not_reported:
  "calculateShownDimensionNamesAndValues duplicateKeyCatalogue None =
     ([], Inr \<lparr> di_values = [Elem [0, 1], Elem []],
               di_names = [Elem [''Births'', ''Deaths''], Elem []],
               di_ids = [Elem [''BD_2'', ''BD_4'']],
               di_dimensionNames = [Elem ''Measure'', Undefined],
               di_dimensionIds = [Elem ''MEASURE'', Undefined] \<rparr>)
   \<and> fst (calculateShownDimensionNamesAndValues gapCatalogue None) = []
   \<and> map_sum id di_values (snd (calculateShownDimensionNamesAndValues gapCatalogue None))
       = Inr [Elem [0, 1], Elem [], Elem [0, 1]]
   \<and> fst (calculateDimensionNamesAndValues duplicateKeyCatalogue) = []"
  by code_simp

section \<open>The lengths recorded by the decoder\<close>

lemma element_assignIndex:
  "element (assignIndex xs i v) j = (if j = i then Inr v else element xs j)"
  by (auto simp: element_def assignIndex_def nth_append nth_Cons' split: slot.splits)

lemma decode_values_at:
  "element (di_values (foldl decodeEntry init ss)) k =
     (case find (\<lambda>d. keyPosition d = k) (rev ss) of
        Some d \<Rightarrow> Inr (range_js (length (dim_values d)))
      | None \<Rightarrow> element (di_values init) k)"
  by (induction ss rule: rev_induct) (auto simp: decodeEntry_def Let_def element_assignIndex)

lemma decode_names_at:
  "element (di_names (foldl decodeEntry init ss)) k =
     (case find (\<lambda>d. keyPosition d = k) (rev ss) of
        Some d \<Rightarrow> Inr (if 1 < length (dim_values d) then map val_name (dim_values d) else [ [] ])
      | None \<Rightarrow> element (di_names init) k)"
  by (induction ss rule: rev_induct) (auto simp: decodeEntry_def Let_def element_assignIndex)

lemma decode_ids_at:
  "element (di_ids (foldl decodeEntry init ss)) k =
     (case find (\<lambda>d. keyPosition d = k) (rev ss) of
        Some d \<Rightarrow> Inr (map val_id (dim_values d))
      | None \<Rightarrow> element (di_ids init) k)"
  by (induction ss rule: rev_induct) (auto simp: decodeEntry_def Let_def element_assignIndex)

lemma removeIndex_values:
  "removeIndex idx r = Inr r' \<Longrightarrow>
     element (di_values r') k =
       (if idx = Some k then map_sum id (take 1) (element (di_values r) k)
        else element (di_values r) k)"
  by (cases idx) (auto simp: removeIndex_def bindE_def element_assignIndex split: sum.splits)

lemma removeIndex_names:
  "removeIndex idx r = Inr r' \<Longrightarrow>
     element (di_names r') k = (if idx = Some k then Inr [ [] ] else element (di_names r) k)"
  by (cases idx) (auto simp: removeIndex_def bindE_def element_assignIndex split: sum.splits)

lemma removeIndex_ids: "removeIndex idx r = Inr r' \<Longrightarrow> di_ids r' = di_ids r"
  by (cases idx) (auto simp: removeIndex_def bindE_def split: sum.splits)

theorem decoder_lengths_counterexample:
  "map_sum id di_values (snd (calculateShownDimensionNamesAndValues birthsDeathsCatalogue
       (Some (calculateSpecialDimensions defaultItem birthsDeathsCatalogue))))
     = Inr [Elem [0], Elem [0], Elem [0, 1]]
   \<and> map_sum id di_ids (snd (calculateShownDimensionNamesAndValues birthsDeathsCatalogue
       (Some (calculateSpecialDimensions defaultItem birthsDeathsCatalogue))))
     = Inr [Elem [''R1'', ''R2'', ''R3''], Elem [''LGA''], Elem [''BD_2'', ''BD_4'']]"
  by code_simp

text \<open>
  C5, restricted to the dimensions that are not hidden. Take any catalogue and any key
  position \<open>k\<close> written by some entry, and let \<open>d\<close> be the last entry written there.
  After the decoder has run without an exception, \<open>ids[k]\<close> is the list of the ids of
  every value of \<open>d\<close>, in order. When \<open>k\<close> is neither the region nor the time-period
  index, \<open>values[k]\<close> is the index range of the values of \<open>d\<close> and \<open>names[k]\<close> is their
  names (or \<open>['']\<close> for at most one value), so that for at least one value the three
  lengths are equal. When \<open>k\<close> is the region or the time-period index, \<open>values[k]\<close> is
  cut to its first element (at most one element), \<open>names[k]\<close> is \<open>['']\<close>, and \<open>ids[k]\<close>
  still holds every id.
\<close>

theorem decoder_lengths:
  assumes run: "snd (calculateShownDimensionNamesAndValues ss specialDims) = Inr di"
    and last: "find (\<lambda>d. keyPosition d = k) (rev ss) = Some d"
  shows "\<exists>vs ns is.
           element (di_values di) k = Inr vs \<and> element (di_names di) k = Inr ns
         \<and> element (di_ids di) k = Inr is
         \<and> is = map val_id (dim_values d)
         \<and> length is = length (dim_values d)
         \<and> (if \<exists>sd. specialDims = Some sd
                    \<and> (regionDimensionIndex sd = Some k \<or> timePeriodDimensionIndex sd = Some k)
            then vs = take 1 (range_js (length (dim_values d)))
                 \<and> length vs = min 1 (length (dim_values d))
                 \<and> ns = [ [] ]
            else vs = range_js (length (dim_values d))
                 \<and> length vs = length (dim_values d)
                 \<and> ns = (if 1 < length (dim_values d) then map val_name (dim_values d) else [ [] ])
                 \<and> (0 < length (dim_values d) \<longrightarrow> length ns = length (dim_values d)))"
proof -
  define r0 where "r0 = foldl decodeEntry (initialDimensionInfo (length ss)) ss"
  have v0: "element (di_values r0) k = Inr (range_js (length (dim_values d)))"
    and n0: "element (di_names r0) k
              = Inr (if 1 < length (dim_values d) then map val_name (dim_values d) else [ [] ])"
    and i0: "element (di_ids r0) k = Inr (map val_id (dim_values d))"
    using last by (simp_all add: r0_def decode_values_at decode_names_at decode_ids_at)
  show ?thesis
  proof (cases specialDims)
    case None
    with run have "di = r0"
      by (simp add: calculateShownDimensionNamesAndValues_def Let_def r0_def)
    with None v0 n0 i0 show ?thesis
      by (cases "dim_values d" rule: list.exhaust [case_names Nil Cons])
         (auto simp: range_js_def)
  next
    case (Some sd)
    with run obtain r1 where
      s1: "removeIndex (regionDimensionIndex sd) r0 = Inr r1" and
      s2: "removeIndex (timePeriodDimensionIndex sd) r1 = Inr di"
      by (auto simp: calculateShownDimensionNamesAndValues_def Let_def r0_def bindE_def
          split: sum.splits)
    have ids: "element (di_ids di) k = Inr (map val_id (dim_values d))"
      using i0 removeIndex_ids [OF s1] removeIndex_ids [OF s2] by simp
    have vals: "element (di_values di) k =
        Inr (if regionDimensionIndex sd = Some k \<or> timePeriodDimensionIndex sd = Some k
             then take 1 (range_js (length (dim_values d)))
             else range_js (length (dim_values d)))"
      using v0 removeIndex_values [OF s1, of k] removeIndex_values [OF s2, of k]
      by (auto simp: range_js_def)
    have nams: "element (di_names di) k =
        Inr (if regionDimensionIndex sd = Some k \<or> timePeriodDimensionIndex sd = Some k
             then [ [] ]
             else if 1 < length (dim_values d) then map val_name (dim_values d) else [ [] ])"
      using n0 removeIndex_names [OF s1, of k] removeIndex_names [OF s2, of k]
      by auto
    show ?thesis
      using Some ids vals nams
      by (cases "dim_values d" rule: list.exhaust [case_names Nil Cons])
         (auto simp: range_js_def)
  qed
qed

theorem decoder_lengths_witness:
  "map_sum id length (element (di_values (the (item_dimensionInfo (exampleDataflow birthsDeathsCatalogue)))) 2) = Inr 2
   \<and> map_sum id length (element (di_names (the (item_dimensionInfo (exampleDataflow birthsDeathsCatalogue)))) 2) = Inr 2
   \<and> element (di_ids (the (item_dimensionInfo (exampleDataflow birthsDeathsCatalogue)))) 2
        = Inr [''BD_2'', ''BD_4'']
   \<and> element (di_values (the (item_dimensionInfo (exampleDataflow birthsDeathsCatalogue)))) 0 = Inr [0]
   \<and> element (di_names (the (item_dimensionInfo (exampleDataflow birthsDeathsCatalogue)))) 0 = Inr [ [] ]
   \<and> element (di_ids (the (item_dimensionInfo (exampleDataflow birthsDeathsCatalogue)))) 0
        = Inr [''R1'', ''R2'', ''R3'']"
proof -
  let ?item = "exampleDataflow birthsDeathsCatalogue"
  let ?sd = "the (item_specialDimensions ?item)"
  let ?di = "the (item_dimensionInfo ?item)"
  let ?d = "mkDimension 2 ''MEASURE'' ''Measure'' [mkValue ''BD_2'' ''Births'', mkValue ''BD_4'' ''Deaths'']"
  let ?r = "mkDimension 0 ''REGION'' ''Region''
              [mkValue ''R1'' ''One'', mkValue ''R2'' ''Two'', mkValue ''R3'' ''Three'']"
  have run: "snd (calculateShownDimensionNamesAndValues birthsDeathsCatalogue (Some ?sd)) = Inr ?di"
    by code_simp
  have last: "find (\<lambda>d. keyPosition d = 2) (rev birthsDeathsCatalogue) = Some ?d"
    by (simp add: birthsDeathsCatalogue_def mkDimension_def)
  have last0: "find (\<lambda>d. keyPosition d = 0) (rev birthsDeathsCatalogue) = Some ?r"
    by (simp add: birthsDeathsCatalogue_def mkDimension_def)
  have sd: "regionDimensionIndex ?sd = Some 0 \<and> timePeriodDimensionIndex ?sd = None"
    by code_simp
  have n: "dim_values ?d = [mkValue ''BD_2'' ''Births'', mkValue ''BD_4'' ''Deaths'']"
    "dim_values ?r = [mkValue ''R1'' ''One'', mkValue ''R2'' ''Two'', mkValue ''R3'' ''Three'']"
    by (simp_all add: mkDimension_def)
  from decoder_lengths [OF run last] sd n(1)
  have m: "map_sum id length (element (di_values ?di) 2) = Inr 2
         \<and> map_sum id length (element (di_names ?di) 2) = Inr 2
         \<and> element (di_ids ?di) 2 = Inr [''BD_2'', ''BD_4'']"
    by (auto simp: mkValue_def)
  from decoder_lengths [OF run last0] sd n(2)
  have r: "element (di_values ?di) 0 = Inr [0]
         \<and> element (di_names ?di) 0 = Inr [ [] ]
         \<and> element (di_ids ?di) 0 = Inr [''R1'', ''R2'', ''R3'']"
    by (auto simp: mkValue_def range_js_def)
  from m r show ?thesis by simp
qed

section \<open>The combination enumerator on lengths 1, 1, 3, 2\<close>

lemma element_in_set: "element xs i = Inr v \<Longrightarrow> Elem v \<in> set xs"
  by (auto simp: element_def split: if_splits slot.splits) (metis nth_mem)

lemma decode_values_shape:
  "\<forall>s\<in>set (di_values (foldl decodeEntry (initialDimensionInfo n) ss)).
     s = Hole \<or> (\<exists>m. s = Elem (range_js m))"
proof (induction ss rule: rev_induct)
  case Nil
  show ?case by (auto simp: initialDimensionInfo_def range_js_def intro: exI [of _ 0])
next
  case (snoc d ds)
  have "set (di_values (decodeEntry r d))
          \<subseteq> set (di_values r) \<union> {Hole, Elem (range_js (length (dim_values d)))}" for r
    using set_assignIndex [of "di_values r" "keyPosition d"]
    by (simp add: decodeEntry_def Let_def)
  with snoc show ?case by fastforce
qed

lemma decode_names_defined:
  "Undefined \<notin> set (di_names (foldl decodeEntry (initialDimensionInfo n) ss))"
proof (induction ss rule: rev_induct)
  case Nil
  show ?case by (simp add: initialDimensionInfo_def)
next
  case (snoc d ds)
  have "\<exists>v. set (di_names (decodeEntry r d)) \<subseteq> set (di_names r) \<union> {Hole, Elem v}" for r
    using set_assignIndex [of "di_names r" "keyPosition d"]
    by (auto simp: decodeEntry_def Let_def)
  with snoc show ?case by fastforce
qed

lemma removeIndex_values_shape:
  assumes "removeIndex idx r = Inr r'"
    and "\<forall>s\<in>set (di_values r). s = Hole \<or> (\<exists>m. s = Elem (range_js m))"
  shows "\<forall>s\<in>set (di_values r'). s = Hole \<or> (\<exists>m. s = Elem (range_js m))"
proof (cases idx)
  case None
  with assms show ?thesis by (simp add: removeIndex_def)
next
  case (Some i)
  with assms(1) obtain vs where e: "element (di_values r) i = Inr vs"
    and r': "di_values r' = assignIndex (di_values r) i (take 1 vs)"
    by (auto simp: removeIndex_def bindE_def split: sum.splits)
  from element_in_set [OF e] assms(2) obtain m where "vs = range_js m" by auto
  then have "take 1 vs = range_js (min 1 m)" by (simp add: range_js_def take_upt min_def)
  then show ?thesis
    using set_assignIndex [of "di_values r" i "take 1 vs"] assms(2) r' by fastforce
qed

lemma removeIndex_names_defined:
  assumes "removeIndex idx r = Inr r'" and "Undefined \<notin> set (di_names r)"
  shows "Undefined \<notin> set (di_names r')"
proof (cases idx)
  case None
  with assms show ?thesis by (simp add: removeIndex_def)
next
  case (Some i)
  with assms(1) have "di_names r' = assignIndex (di_names r) i [ [] ]"
    by (auto simp: removeIndex_def bindE_def split: sum.splits)
  then show ?thesis
    using set_assignIndex [of "di_names r" i "[ [] ]"] assms(2) by fastforce
qed

lemma decoder_shape:
  assumes "snd (calculateShownDimensionNamesAndValues ss specialDims) = Inr di"
  shows "(\<forall>s\<in>set (di_values di). s = Hole \<or> (\<exists>m. s = Elem (range_js m)))
       \<and> Undefined \<notin> set (di_names di)"
proof (cases specialDims)
  case None
  with assms show ?thesis
    using decode_values_shape [of "length ss" ss] decode_names_defined [of "length ss" ss]
    by (simp add: calculateShownDimensionNamesAndValues_def Let_def)
next
  case (Some sd)
  define r0 where "r0 = foldl decodeEntry (initialDimensionInfo (length ss)) ss"
  from Some assms obtain r1 where
      s1: "removeIndex (regionDimensionIndex sd) r0 = Inr r1" and
      s2: "removeIndex (timePeriodDimensionIndex sd) r1 = Inr di"
    by (auto simp: calculateShownDimensionNamesAndValues_def Let_def r0_def bindE_def
        split: sum.splits)
  have a0: "\<forall>s\<in>set (di_values r0). s = Hole \<or> (\<exists>m. s = Elem (range_js m))"
    and b0: "Undefined \<notin> set (di_names r0)"
    unfolding r0_def by (rule decode_values_shape, rule decode_names_defined)
  show ?thesis
    using removeIndex_values_shape [OF s2 removeIndex_values_shape [OF s1 a0]]
          removeIndex_names_defined [OF s2 removeIndex_names_defined [OF s1 b0]]
    by simp
qed

lemma filterFrom_subset: "filterFrom i p xs = Inr ys \<Longrightarrow> set ys \<subseteq> set xs - {Hole}"
proof (induction xs arbitrary: i ys)
  case Nil
  then show ?case by simp
next
  case (Cons x xs)
  then show ?case
    by (fastforce simp: bindE_def split: if_splits sum.splits)
qed

lemma filterFrom_total:
  assumes "\<And>x j. \<exists>b. p x j = Inr b"
  shows "\<exists>ys. filterFrom i p xs = Inr ys"
proof (induction xs arbitrary: i)
  case Nil
  show ?case by simp
next
  case (Cons x xs)
  from assms obtain b where b: "p x i = Inr b" by blast
  from Cons [of "Suc i"] obtain ys where "filterFrom (Suc i) p xs = Inr ys" by blast
  with b show ?case by (simp add: bindE_def)
qed

lemma slotValues_Elem:
  "\<forall>s\<in>set xs. \<exists>v. s = Elem v \<Longrightarrow> \<exists>vs. slotValues xs = Inr vs \<and> xs = map Elem vs"
  unfolding slotValues_def
  by (induction xs) (auto simp: slotValue_def)

lemma slotValues_map_Elem: "slotValues (map Elem vs) = Inr vs"
  unfolding slotValues_def by (induction vs) (auto simp: slotValue_def)

theorem enumerator_time_counterexample:
  "map_option arrayLengths (map_option di_values (item_dimensionInfo (exampleDataflow timeRegionAgeSexCatalogue)))
     = Some [Some 1, Some 1, Some 3, Some 2]
   \<and> map_sum id sc_values (calculateShownDimensionCombinations (exampleDataflow timeRegionAgeSexCatalogue))
     = Inr [[0, 0, 0], [0, 0, 1], [0, 1, 0], [0, 1, 1], [0, 2, 0], [0, 2, 1]]"
  by code_simp

text \<open>
  C2, with the time-period slot left out. Take a dimension information produced by the decoder and held by an item
  whose special dimensions are resolved. The enumerator leaves the time-period slot out
  before taking the product; when the value-index arrays that remain have the lengths
  1, 1, 3, 2, it returns exactly \<open>1 * 1 * 3 * 2 = 6\<close> combinations, in lexicographic order
  with the first dimension varying slowest, from \<open>[0, 0, 0, 0]\<close> to \<open>[0, 0, 2, 1]\<close>.
\<close>

theorem enumerator_six_combinations:
  assumes dec: "snd (calculateShownDimensionNamesAndValues ss specialDims) = Inr di"
    and di: "item_dimensionInfo item = Some di"
    and sd: "item_specialDimensions item = Some sd"
    and len: "map_sum id arrayLengths (filterArray (getNonTimeDimensionFilter item) (di_values di))
                = Inr [Some 1, Some 1, Some 3, Some 2]"
  shows "\<exists>shown. calculateShownDimensionCombinations item = Inr shown
           \<and> sc_values shown = [[0, 0, 0, 0], [0, 0, 0, 1], [0, 0, 1, 0], [0, 0, 1, 1], [0, 0, 2, 0], [0, 0, 2, 1]]
           \<and> length (sc_values shown) = 1 * 1 * 3 * 2"
proof -
  from len obtain vs where
    flt: "filterArray (getNonTimeDimensionFilter item) (di_values di) = Inr vs"
    and lens: "arrayLengths vs = [Some 1, Some 1, Some 3, Some 2]"
    by (cases "filterArray (getNonTimeDimensionFilter item) (di_values di)") auto
  from decoder_shape [OF dec] have
    shape: "\<forall>s\<in>set (di_values di). s = Hole \<or> (\<exists>m. s = Elem (range_js m))"
    and names: "Undefined \<notin> set (di_names di)" by simp_all
  from flt have sub: "set vs \<subseteq> set (di_values di) - {Hole}"
    by (simp add: filterArray_def filterFrom_subset)
  from lens obtain a b c d where vs: "vs = [a, b, c, d]"
    by (auto simp: arrayLengths_def map_eq_Cons_conv)
  have rng: "\<exists>m. s = Elem (range_js m)" if "s \<in> set vs" for s
    using that sub shape by blast
  have "a = Elem (range_js 1)" "b = Elem (range_js 1)" "c = Elem (range_js 3)" "d = Elem (range_js 2)"
    using lens rng [of a] rng [of b] rng [of c] rng [of d]
    by (auto simp: vs arrayLengths_def range_js_def)
  then have vs': "vs = map Elem [[0], [0], [0, 1, 2], [0, 1]]"
    by (simp add: vs range_js_def upt_rec)
  from sd have "\<And>x j. \<exists>b. getNonTimeDimensionFilter item (x :: string list slot) j = Inr b"
    by (simp add: getNonTimeDimensionFilter_def)
  then obtain ns where nflt: "filterArray (getNonTimeDimensionFilter item) (di_names di) = Inr ns"
    unfolding filterArray_def using filterFrom_total by blast
  then have "set ns \<subseteq> set (di_names di) - {Hole}"
    by (simp add: filterArray_def filterFrom_subset)
  with names have "\<forall>s\<in>set ns. \<exists>v. s = Elem v"
    by (metis Diff_iff insertI1 slot.exhaust subsetD)
  from slotValues_Elem [OF this] obtain namePools where np: "slotValues ns = Inr namePools"
    by blast
  have pools: "slotValues vs = Inr [[0], [0], [0, 1, 2], [0, 1]]"
    unfolding vs' by (rule slotValues_map_Elem)
  show ?thesis
    using di flt nflt np pools
    by (simp add: calculateShownDimensionCombinations_def bindE_def)
qed

theorem enumerator_six_combinations_witness:
  "map_sum id sc_values (calculateShownDimensionCombinations (exampleDataflow regionAgeSexTimeCatalogue))
     = Inr [[0, 0, 0, 0], [0, 0, 0, 1], [0, 0, 1, 0], [0, 0, 1, 1], [0, 0, 2, 0], [0, 0, 2, 1]]"
proof -
  let ?item = "exampleDataflow regionAgeSexTimeCatalogue"
  let ?sd = "the (item_specialDimensions ?item)"
  let ?di = "the (item_dimensionInfo ?item)"
  have dec: "snd (calculateShownDimensionNamesAndValues regionAgeSexTimeCatalogue (Some ?sd)) = Inr ?di"
    by code_simp
  have di: "item_dimensionInfo ?item = Some ?di" by code_simp
  have sd: "item_specialDimensions ?item = Some ?sd" by code_simp
  have len: "map_sum id arrayLengths (filterArray (getNonTimeDimensionFilter ?item) (di_values ?di))
                = Inr [Some 1, Some 1, Some 3, Some 2]"
    by code_simp
  from enumerator_six_combinations [OF dec di sd len] show ?thesis by auto
qed

section \<open>Value columns and sparse keys\<close>

lemma assignIndex_twice: "assignIndex (assignIndex xs i a) i b = assignIndex xs i b"
  by (auto simp: assignIndex_def nth_append list_update_append)

lemma observationCell_absent: "series key = None \<Longrightarrow> observationCell series key = Inr Null"
  by (simp add: observationCell_def)

lemma observationCell_total:
  assumes "\<forall>key entry. series key = Some entry \<longrightarrow> observations entry 0 \<noteq> None"
  shows "\<exists>c. observationCell series key = Inr c"
proof (cases "series key")
  case None
  then show ?thesis by (simp add: observationCell_def)
next
  case (Some entry)
  with assms obtain scalars where "observations entry 0 = Some scalars" by fastforce
  with Some show ?thesis by (simp add: observationCell_def)
qed

lemma regionLoop_cells:
  assumes "\<forall>key entry. series key = Some entry \<longrightarrow> observations entry 0 \<noteq> None"
  shows "\<exists>vs. regionLoop series r arr rs = Inr vs \<and> length vs = length rs
           \<and> (\<forall>k<length rs.
                 observationCell series (joinArray '':'' (assignIndex arr r (rs ! k))) = Inr (vs ! k))"
proof (induction rs arbitrary: arr)
  case Nil
  show ?case by simp
next
  case (Cons x rs)
  obtain c where c: "observationCell series (joinArray '':'' (assignIndex arr r x)) = Inr c"
    using observationCell_total [OF assms] by blast
  from Cons [of "assignIndex arr r x"] obtain vs where
    vs: "regionLoop series r (assignIndex arr r x) rs = Inr vs" "length vs = length rs"
    "\<forall>k<length rs. observationCell series (joinArray '':'' (assignIndex arr r (rs ! k))) = Inr (vs ! k)"
    by (auto simp: assignIndex_twice)
  have "regionLoop series r arr (x # rs) = Inr (c # vs)"
    using c vs(1) by (simp add: Let_def bindE_def)
  moreover have "\<forall>k<length (x # rs).
      observationCell series (joinArray '':'' (assignIndex arr r ((x # rs) ! k))) = Inr ((c # vs) ! k)"
    using c vs(3) by (auto simp: nth_Cons')
  ultimately show ?case using vs(2) by auto
qed

lemma mapE_total:
  assumes "\<forall>x\<in>set xs. \<exists>y. f x = Inr y"
  shows "\<exists>ys. mapE f xs = Inr ys \<and> length ys = length xs \<and> (\<forall>i<length xs. f (xs ! i) = Inr (ys ! i))"
  using assms
proof (induction xs)
  case Nil
  show ?case by simp
next
  case (Cons x xs)
  then obtain y ys where y: "f x = Inr y" and ys: "mapE f xs = Inr ys" "length ys = length xs"
    "\<forall>i<length xs. f (xs ! i) = Inr (ys ! i)" by auto
  have "\<forall>i<length (x # xs). f ((x # xs) ! i) = Inr ((y # ys) ! i)"
    using y ys(3) by (auto simp: nth_Cons')
  with y ys(1,2) show ?case by auto
qed

text \<open>
  The loops of \<open>buildValueColumns\<close> in general. Let the region dimension index \<open>r\<close> be
  resolved to an entry of the structure array, let every combination have its tuple of names,
  and let every entry present in the observation map hold an observation at time index 0.
  Then \<open>buildValueColumns\<close> raises no exception and returns one column per combination;
  every column has as many values as the entry at array position \<open>r\<close> has; and a cell is
  \<open>null\<close> when the colon-joined key read for it, the combination with the region index
  written at index \<open>r\<close>, is absent from the map.
\<close>

lemma buildValueColumns_cells:
  assumes region: "regionDimensionIndex sd = Some r" "r < length structureSeries"
    and names: "length (sc_values shown) \<le> length (sc_names shown)"
    and wf: "\<forall>key entry. series key = Some entry \<longrightarrow> observations entry 0 \<noteq> None"
  shows "\<exists>columns. buildValueColumns shown structureSeries series sd = Inr columns
           \<and> length columns = length (sc_values shown)
           \<and> (\<forall>c\<in>set columns. length (col_values c) = length (dim_values (structureSeries ! r)))
           \<and> (\<forall>ci<length columns. \<forall>ri<length (dim_values (structureSeries ! r)).
                 series (joinArray '':'' (assignIndex (map Elem (sc_values shown ! ci)) r ri)) = None
                 \<longrightarrow> col_values (columns ! ci) ! ri = Null)"
proof -
  define n where "n = length (dim_values (structureSeries ! r))"
  have one: "\<exists>col. buildValueColumn shown structureSeries series sd ci = Inr col
               \<and> length (col_values col) = n
               \<and> (\<forall>ri<n. series (joinArray '':'' (assignIndex (map Elem (sc_values shown ! ci)) r ri)) = None
                     \<longrightarrow> col_values col ! ri = Null)"
    if ci: "ci < length (sc_values shown)" for ci
  proof -
    from regionLoop_cells [OF wf, of r "map Elem (sc_values shown ! ci)" "[0..<n]"]
    obtain vs where vs: "regionLoop series r (map Elem (sc_values shown ! ci)) [0..<n] = Inr vs"
      "length vs = n"
      "\<forall>k<n. observationCell series
                 (joinArray '':'' (assignIndex (map Elem (sc_values shown ! ci)) r k)) = Inr (vs ! k)"
      by auto
    have "\<forall>ri<n. series (joinArray '':'' (assignIndex (map Elem (sc_values shown ! ci)) r ri)) = None
            \<longrightarrow> vs ! ri = Null"
      using vs(3) by (auto simp: observationCell_absent)
    then show ?thesis
      using ci names region vs(1,2)
      by (simp add: buildValueColumn_def elementOf_def bindE_def Let_def n_def)
  qed
  then have "\<forall>ci\<in>set [0..<length (sc_values shown)].
      \<exists>col. buildValueColumn shown structureSeries series sd ci = Inr col"
    by (metis atLeastLessThan_iff set_upt)
  from mapE_total [OF this] obtain columns where
    cols: "buildValueColumns shown structureSeries series sd = Inr columns"
      "length columns = length (sc_values shown)"
      "\<forall>ci<length (sc_values shown).
          buildValueColumn shown structureSeries series sd ci = Inr (columns ! ci)"
    by (auto simp: buildValueColumns_def)
  have each: "length (col_values (columns ! ci)) = n
      \<and> (\<forall>ri<n. series (joinArray '':'' (assignIndex (map Elem (sc_values shown ! ci)) r ri)) = None
                     \<longrightarrow> col_values (columns ! ci) ! ri = Null)"
    if "ci < length columns" for ci
    using one [of ci] cols(2,3) that by auto
  have "\<forall>c\<in>set columns. length (col_values c) = n"
    using each by (auto simp: in_set_conv_nth)
  with cols(1,2) each show ?thesis
    unfolding n_def by blast
qed

lemma buildValueColumns_cells_example:
  "\<exists>columns.
     buildValueColumns
       \<lparr> sc_values = [[0, 0, 0], [0, 0, 1]],
         sc_names = [[[], [], ''Births''], [[], [], ''Deaths'']] \<rparr>
       birthsDeathsCatalogue birthsSeries
       \<lparr> regionDimensionIndex = Some 0, regionTypeDimensionIndex = Some 1,
         regionTypeCount = 1, timePeriodDimensionIndex = None \<rparr> = Inr columns
     \<and> length columns = 2
     \<and> (\<forall>c\<in>set columns. length (col_values c) = 3)
     \<and> col_values (columns ! 1) ! 2 = Null"
proof -
  let ?shown = "\<lparr> sc_values = [[0, 0, 0], [0, 0, 1]],
                   sc_names = [[[], [], ''Births''], [[], [], ''Deaths'']] \<rparr>"
  let ?sd = "\<lparr> regionDimensionIndex = Some 0, regionTypeDimensionIndex = Some 1,
                regionTypeCount = 1, timePeriodDimensionIndex = None \<rparr>"
  have r: "regionDimensionIndex ?sd = Some 0" "0 < length birthsDeathsCatalogue"
    by (simp_all add: birthsDeathsCatalogue_def)
  have names: "length (sc_values ?shown) \<le> length (sc_names ?shown)" by simp
  have wf: "\<forall>key entry. birthsSeries key = Some entry \<longrightarrow> observations entry 0 \<noteq> None"
    by (auto simp: birthsSeries_def split: if_splits)
  have n: "length (dim_values (birthsDeathsCatalogue ! 0)) = 3"
    by (simp add: birthsDeathsCatalogue_def mkDimension_def)
  have key: "birthsSeries (joinArray '':'' (assignIndex (map Elem (sc_values ?shown ! 1)) 0 2)) = None"
    by code_simp
  from buildValueColumns_cells [OF r names wf] n key show ?thesis
    by (auto simp del: One_nat_def)
qed

text \<open>
  C3, on two catalogues. In the first the measure is listed before the region dimension,
  which has key position 0 and three values. \<open>buildValueColumns\<close> reads the region count from
  the entry at array position 0, the measure with its two values: every value column has two
  values, not three, and the observations of the third region, present in the map, are in no
  column. In the second the time-period dimension has key position 0 and the map holds no
  observation of deaths, under no key. The combination of the deaths column is the
  time-filtered tuple \<open>[1, 0]\<close>; the region index is written at index 2 of it, the keys read
  are \<open>1:0:0\<close> and \<open>1:0:1\<close>, those of the births of the second year, and the cells of the
  deaths column are 100 and 200, not \<open>null\<close>.
\<close>

theorem buildValueColumns_region_count_and_keys:
  "(calculateSpecialDimensions defaultItem measureFirstCatalogue
      = \<lparr> regionDimensionIndex = Some 0, regionTypeDimensionIndex = None,
          regionTypeCount = 0, timePeriodDimensionIndex = None \<rparr>
    \<and> dim_id (measureFirstCatalogue ! 1) = ''REGION''
    \<and> length (dim_values (measureFirstCatalogue ! 1)) = 3
    \<and> calculateShownDimensionCombinations (exampleLoad sumValues measureFirstCatalogue measureFirstSeries)
       = Inr \<lparr> sc_values = [[0, 0], [0, 1]], sc_names = [[[], ''Births''], [[], ''Deaths'']] \<rparr>
    \<and> buildValueColumns
         \<lparr> sc_values = [[0, 0], [0, 1]], sc_names = [[[], ''Births''], [[], ''Deaths'']] \<rparr>
         measureFirstCatalogue measureFirstSeries
         \<lparr> regionDimensionIndex = Some 0, regionTypeDimensionIndex = None,
           regionTypeCount = 0, timePeriodDimensionIndex = None \<rparr>
       = Inr [\<lparr> col_name = ''Births'', col_values = [Scalar 10, Scalar 20], col_isActive = False \<rparr>,
              \<lparr> col_name = ''Deaths'', col_values = [Scalar 1, Scalar 2], col_isActive = False \<rparr>]
    \<and> observationCell measureFirstSeries ''2:0'' = Inr (Scalar 30)
    \<and> observationCell measureFirstSeries ''2:1'' = Inr (Scalar 3)
    \<and> calculateSpecialDimensions defaultItem twoYearsCatalogue
       = \<lparr> regionDimensionIndex = Some 2, regionTypeDimensionIndex = None,
           regionTypeCount = 0, timePeriodDimensionIndex = Some 0 \<rparr>
    \<and> calculateShownDimensionCombinations (exampleLoad sumValues twoYearsCatalogue twoYearsBirthsSeries)
       = Inr \<lparr> sc_values = [[0, 0], [1, 0]], sc_names = [[''Births'', []], [''Deaths'', []]] \<rparr>
    \<and> buildValueColumns
         \<lparr> sc_values = [[0, 0], [1, 0]], sc_names = [[''Births'', []], [''Deaths'', []]] \<rparr>
         twoYearsCatalogue twoYearsBirthsSeries
         \<lparr> regionDimensionIndex = Some 2, regionTypeDimensionIndex = None,
           regionTypeCount = 0, timePeriodDimensionIndex = Some 0 \<rparr>
       = Inr [\<lparr> col_name = ''Births'', col_values = [Scalar 10, Scalar 20], col_isActive = False \<rparr>,
              \<lparr> col_name = ''Deaths'', col_values = [Scalar 100, Scalar 200], col_isActive = False \<rparr>]
    \<and> joinArray '':'' (assignIndex (map Elem [1, 0]) 2 0) = ''1:0:0''
    \<and> joinArray '':'' (assignIndex (assignIndex (map Elem [1, 0]) 2 0) 2 1) = ''1:0:1'')
   \<and> (twoYearsBirthsSeries ''0:1:0'' = None \<and> twoYearsBirthsSeries ''0:1:1'' = None
      \<and> twoYearsBirthsSeries ''1:1:0'' = None \<and> twoYearsBirthsSeries ''1:1:1'' = None
      \<and> twoYearsBirthsSeries ''1:0'' = None \<and> twoYearsBirthsSeries ''1:1'' = None)"
proof (rule conjI)
  show "twoYearsBirthsSeries ''0:1:0'' = None \<and> twoYearsBirthsSeries ''0:1:1'' = None
      \<and> twoYearsBirthsSeries ''1:1:0'' = None \<and> twoYearsBirthsSeries ''1:1:1'' = None
      \<and> twoYearsBirthsSeries ''1:0'' = None \<and> twoYearsBirthsSeries ''1:1'' = None"
    by (simp add: twoYearsBirthsSeries_def)
qed code_simp

section \<open>The lookup of active combinations in the registry\<close>

lemma indexOf_bounds: "- 1 \<le> indexOf xs y \<and> indexOf xs y < int (length xs)"
  by (induction xs) (auto simp: Let_def)

lemma indexOf_nonneg_iff: "0 \<le> indexOf xs y \<longleftrightarrow> y \<in> set xs"
  by (induction xs) (auto simp: Let_def)

lemma indexOf_eq_iff:
  "indexOf xs y = int i \<longleftrightarrow> i < length xs \<and> xs ! i = y \<and> (\<forall>j<i. xs ! j \<noteq> y)"
proof (induction xs arbitrary: i)
  case Nil
  show ?case by simp
next
  case (Cons x xs)
  show ?case
  proof (cases "x = y")
    case True
    then show ?thesis by (cases i) auto
  next
    case False
    show ?thesis
    proof (cases i)
      case 0
      with False indexOf_bounds [of xs y] show ?thesis by (auto simp: Let_def)
    next
      case (Suc k)
      have "indexOf (x # xs) y = int (Suc k) \<longleftrightarrow> indexOf xs y = int k"
        using False indexOf_bounds [of xs y] by (auto simp: Let_def)
      also have "\<dots> \<longleftrightarrow> k < length xs \<and> xs ! k = y \<and> (\<forall>j<k. xs ! j \<noteq> y)"
        by (rule Cons.IH)
      also have "\<dots> \<longleftrightarrow> Suc k < length (x # xs) \<and> (x # xs) ! Suc k = y \<and> (\<forall>j<Suc k. (x # xs) ! j \<noteq> y)"
        using False by (auto simp: less_Suc_eq_0_disj)
      finally show ?thesis using Suc by simp
    qed
  qed
qed

lemma indexOf_distinct:
  "distinct xs \<Longrightarrow> indexOf xs y = int i \<longleftrightarrow> i < length xs \<and> xs ! i = y"
  by (auto simp: indexOf_eq_iff nth_eq_iff_index_eq)

lemma includedColumns_first_match:
  "includedColumns (map (\<lambda>ac. indexOf strs (f ac)) acs) cols
     = map snd (filter (\<lambda>(i, c). \<exists>ac\<in>set acs. indexOf strs (f ac) = int i) (enumerate 0 cols))"
proof -
  have "0 \<le> indexOf (map g acs) (int i) \<longleftrightarrow> (\<exists>ac\<in>set acs. g ac = int i)" for g :: "'b \<Rightarrow> int" and i
    unfolding indexOf_nonneg_iff by force
  then show ?thesis
    unfolding includedColumns_def by simp
qed

lemma includedColumns_distinct:
  assumes "distinct strs" and "length cols \<le> length strs"
  shows "includedColumns (map (\<lambda>ac. indexOf strs (f ac)) acs) cols
     = map snd (filter (\<lambda>(i, c). strs ! i \<in> f ` set acs) (enumerate 0 cols))"
  unfolding includedColumns_first_match
proof (rule arg_cong [where f = "map snd"], rule filter_cong)
  fix p assume "p \<in> set (enumerate 0 cols)"
  then have "fst p < length cols" by (auto simp: in_set_enumerate_eq)
  with assms show "(case p of (i, c) \<Rightarrow> \<exists>ac\<in>set acs. indexOf strs (f ac) = int i)
      = (case p of (i, c) \<Rightarrow> strs ! i \<in> f ` set acs)"
    by (cases p) (auto simp: indexOf_distinct)
qed simp

text \<open>With a registry whose entries are pairwise distinct as strings, the total column sums
  exactly the value columns whose registry entry string-equals an active combination.\<close>

lemma buildTotalColumns_distinct_registry:
  assumes "item_concepts item \<noteq> []"
    and "item_combinations item = Some combinations"
    and "distinct (map (joinNumbers '','') combinations)"
  shows "buildTotalColumns sumValues item =
     Inr [\<lparr> col_name = ''Total selected'',
            col_values = sumValues (map snd (filter
               (\<lambda>(i, c). map (joinNumbers '','') combinations ! i
                    \<in> joinNumbers '','' ` set (arrayProduct
                         (calculateActiveConceptValues (item_concepts item))))
               (enumerate 0 (take (length combinations) (drop 1 (item_columns item)))))),
            col_isActive = True \<rparr>]"
  using assms
  by (simp add: buildTotalColumns_def calculateActiveConceptValues_def Let_def
      includedColumns_distinct)

lemma filter_enumerate_zip:
  "length cols \<le> length xs \<Longrightarrow>
     map snd (filter (\<lambda>(i, c). P (xs ! (i - n))) (enumerate n cols))
       = map snd (filter (\<lambda>(x, c). P x) (zip xs cols))"
proof (induction cols arbitrary: xs n)
  case Nil
  show ?case by simp
next
  case (Cons c cols)
  then obtain x xs' where xs: "xs = x # xs'" by (cases xs) auto
  with Cons.prems have len: "length cols \<le> length xs'" by simp
  have "filter (\<lambda>(i, c). P (xs ! (i - n))) (enumerate (Suc n) cols)
          = filter (\<lambda>(i, c). P (xs' ! (i - Suc n))) (enumerate (Suc n) cols)"
  proof (rule filter_cong [OF refl])
    fix p assume "p \<in> set (enumerate (Suc n) cols)"
    then have "Suc n \<le> fst p" by (auto simp: in_set_enumerate_eq)
    then have "xs ! (fst p - n) = xs' ! (fst p - Suc n)"
      by (simp add: xs Suc_diff_le)
    then show "(case p of (i, c) \<Rightarrow> P (xs ! (i - n))) = (case p of (i, c) \<Rightarrow> P (xs' ! (i - Suc n)))"
      by (cases p) simp
  qed
  with Cons.IH [OF len, of "Suc n"] show ?case
    by (simp add: xs)
qed

text \<open>With such a registry the columns summed by \<open>buildTotalColumns\<close> are the columns that
  the spec names.\<close>

lemma buildTotalColumns_matching:
  assumes "item_concepts item \<noteq> []"
    and "item_combinations item = Some combinations"
    and "distinct (map (joinNumbers '','') combinations)"
  shows "buildTotalColumns sumValues item =
     Inr [\<lparr> col_name = ''Total selected'',
            col_values = sumValues (matchingValueColumns item),
            col_isActive = True \<rparr>]"
proof -
  let ?cols = "take (length combinations) (drop 1 (item_columns item))"
  let ?acs = "arrayProduct (calculateActiveConceptValues (item_concepts item))"
  have len: "length ?cols \<le> length combinations" by simp
  have "map snd (filter (\<lambda>(i, c). map (joinNumbers '','') combinations ! i \<in> joinNumbers '','' ` set ?acs)
                   (enumerate 0 ?cols))
      = map snd (filter (\<lambda>(i, c). joinNumbers '','' (combinations ! (i - 0)) \<in> joinNumbers '','' ` set ?acs)
                   (enumerate 0 ?cols))"
  proof (rule arg_cong [where f = "map snd"], rule filter_cong [OF refl])
    fix p assume "p \<in> set (enumerate 0 ?cols)"
    then have "fst p < length combinations" by (auto simp: in_set_enumerate_eq)
    then show "(case p of (i, c) \<Rightarrow> map (joinNumbers '','') combinations ! i \<in> joinNumbers '','' ` set ?acs)
       = (case p of (i, c) \<Rightarrow> joinNumbers '','' (combinations ! (i - 0)) \<in> joinNumbers '','' ` set ?acs)"
      by (cases p) simp
  qed
  also have "\<dots> = map snd (filter (\<lambda>(x, c). joinNumbers '','' x \<in> joinNumbers '','' ` set ?acs)
                   (zip combinations ?cols))"
    by (rule filter_enumerate_zip [OF len, where P = "\<lambda>x. joinNumbers '','' x \<in> joinNumbers '','' ` set ?acs"])
  finally show ?thesis
    using assms(2) buildTotalColumns_distinct_registry [OF assms, of sumValues]
    by (simp add: matchingValueColumns_def)
qed

section \<open>The earlier variant: naming, resolver, decoder, enumerator, value columns\<close>

text \<open>The earlier \<open>getRegionColumnName\<close> keeps the case of its argument; with the
  lower-casing of its caller the earlier variant names the region column as the later one
  does.\<close>

lemma getRegionColumnName_v0_keeps_case: "getRegionColumnName_v0 ''LGA_2013'' = ''LGA_code_2013''"
  by (simp add: getRegionColumnName_v0_def)

lemma regionColumnName_v0_agrees: "regionColumnName_v0 rawId = getRegionColumnName rawId"
  by (simp add: regionColumnName_v0_def getRegionColumnName_v0_def getRegionColumnName_def Let_def)

text \<open>Its resolver, too, keeps the last entry that claims a role.\<close>

lemma calculateRegionDimensionInfo_last_match:
  "ri_regionDimensionIndex (calculateRegionDimensionInfo item ss)
     = map_option keyPosition (find (\<lambda>d. dim_id d = regionDimensionId item) (rev ss))
   \<and> ri_regionCount (calculateRegionDimensionInfo item ss)
     = (case find (\<lambda>d. dim_id d = regionDimensionId item) (rev ss) of
          Some d \<Rightarrow> length (dim_values d) | None \<Rightarrow> 0)
   \<and> ri_regionTypeDimensionIndex (calculateRegionDimensionInfo item ss)
     = map_option keyPosition
         (find (\<lambda>d. dim_id d \<noteq> regionDimensionId item \<and> dim_id d = regionTypeDimensionId item)
               (rev ss))"
proof (induction ss rule: rev_induct)
  case Nil
  show ?case by (simp add: calculateRegionDimensionInfo_def)
next
  case (snoc x xs)
  then show ?case
    by (simp add: calculateRegionDimensionInfo_def regionInfoStep_def)
qed

lemma decode_v0_values_shape:
  assumes "\<forall>s\<in>set (di_values init). s = Hole \<or> (\<exists>m. s = Elem (range_js m))"
  shows "\<forall>s\<in>set (di_values (foldl decodeEntry_v0 init ss)).
     s = Hole \<or> (\<exists>m. s = Elem (range_js m))"
proof (induction ss rule: rev_induct)
  case Nil
  show ?case using assms by simp
next
  case (snoc d ds)
  have "set (di_values (decodeEntry_v0 r d))
          \<subseteq> set (di_values r) \<union> {Hole, Elem (range_js (length (dim_values d)))}" for r
    using set_assignIndex [of "di_values r" "keyPosition d"]
    by (simp add: decodeEntry_v0_def Let_def)
  with snoc show ?case by fastforce
qed

lemma decoder_v0_shape:
  "\<forall>s\<in>set (di_values (snd (calculateDimensionNamesAndValues ss))).
     s = Hole \<or> (\<exists>m. s = Elem (range_js m))"
  unfolding calculateDimensionNamesAndValues_def Let_def snd_conv
  by (rule decode_v0_values_shape)
     (auto simp: initialDimensionInfo_def range_js_def intro: exI [of _ 0])

lemma decoder_v0_never_reports: "fst (calculateDimensionNamesAndValues ss) = []"
proof -
  have "Undefined \<notin> set (di_values (snd (calculateDimensionNamesAndValues ss)))"
    using decoder_v0_shape [of ss] by auto
  then show ?thesis
    by (simp add: calculateDimensionNamesAndValues_def Let_def missingDimensionReport_def
        indexOfUndefined_absent)
qed

text \<open>Its enumerator has no time-period filter: value-index arrays of lengths 1, 1, 3, 2
  give the six 4-tuples.\<close>

lemma enumerator_v0_six_combinations:
  assumes run: "calculateNonRegionDimensionCombinations
                  (snd (calculateDimensionNamesAndValues ss)) regionInfo = Inr (di, shown)"
    and lens: "arrayLengths (di_values di) = [Some 1, Some 1, Some 3, Some 2]"
  shows "sc_values shown
           = [[0, 0, 0, 0], [0, 0, 0, 1], [0, 0, 1, 0], [0, 0, 1, 1], [0, 0, 2, 0], [0, 0, 2, 1]]"
proof -
  define r0 where "r0 = snd (calculateDimensionNamesAndValues ss)"
  from run obtain r1 pools where
    s1: "removeIndex (ri_regionDimensionIndex regionInfo) r0 = Inr r1" and
    s2: "removeIndex (ri_regionTypeDimensionIndex regionInfo) r1 = Inr di" and
    p: "slotValues (di_values di) = Inr pools" and
    sh: "sc_values shown = arrayProduct pools"
    by (auto simp: calculateNonRegionDimensionCombinations_def bindE_def r0_def split: sum.splits)
  have shape: "\<forall>s\<in>set (di_values di). s = Hole \<or> (\<exists>m. s = Elem (range_js m))"
    using removeIndex_values_shape [OF s2 removeIndex_values_shape [OF s1]] decoder_v0_shape [of ss]
    by (simp add: r0_def)
  from lens obtain a b c d where vs: "di_values di = [a, b, c, d]"
    by (auto simp: arrayLengths_def map_eq_Cons_conv)
  have "a = Elem (range_js 1)" "b = Elem (range_js 1)" "c = Elem (range_js 3)" "d = Elem (range_js 2)"
    using lens shape by (auto simp: vs arrayLengths_def range_js_def)
  then have "di_values di = map Elem [[0], [0], [0, 1, 2], [0, 1]]"
    by (simp add: vs range_js_def upt_rec)
  with p have "pools = [[0], [0], [0, 1, 2], [0, 1]]"
    by (simp only: slotValues_map_Elem sum.inject)
  with sh show ?thesis by simp
qed

lemma assignOptional_twice:
  "assignOptional (assignOptional xs r a) r b = assignOptional xs r b"
  by (cases r) (simp_all add: assignOptional_def assignIndex_twice)

lemma regionLoop_v0_cells:
  assumes "\<forall>key entry. series key = Some entry \<longrightarrow> observations entry 0 \<noteq> None"
  shows "\<exists>vs. regionLoop_v0 series r arr rs = Inr vs \<and> length vs = length rs
           \<and> (\<forall>k<length rs.
                 observationCell series (joinArray '':'' (assignOptional arr r (rs ! k)))
                 = Inr (vs ! k))"
proof (induction rs arbitrary: arr)
  case Nil
  show ?case by simp
next
  case (Cons x rs)
  obtain c where c: "observationCell series (joinArray '':'' (assignOptional arr r x)) = Inr c"
    using observationCell_total [OF assms] by blast
  from Cons [of "assignOptional arr r x"] obtain vs where
    vs: "regionLoop_v0 series r (assignOptional arr r x) rs = Inr vs" "length vs = length rs"
    "\<forall>k<length rs. observationCell series (joinArray '':'' (assignOptional arr r (rs ! k)))
        = Inr (vs ! k)"
    by (auto simp: assignOptional_twice)
  have "regionLoop_v0 series r arr (x # rs) = Inr (c # vs)"
    using c vs(1) by (simp add: Let_def bindE_def)
  moreover have "\<forall>k<length (x # rs).
      observationCell series (joinArray '':'' (assignOptional arr r ((x # rs) ! k)))
      = Inr ((c # vs) ! k)"
    using c vs(3) by (auto simp: nth_Cons')
  ultimately show ?case using vs(2) by auto
qed

text \<open>The earlier variant of \<open>buildValueColumns\<close> takes the region count recorded by
  \<open>calculateRegionDimensionInfo\<close>; an absent key gives \<open>null\<close> there as well.\<close>

lemma buildValueColumns_v0_absent_key_null:
  assumes names: "length (sc_values nonRegion) \<le> length (sc_names nonRegion)"
    and wf: "\<forall>key entry. series key = Some entry \<longrightarrow> observations entry 0 \<noteq> None"
  shows "\<exists>columns. buildValueColumns_v0 nonRegion series regionInfo = Inr columns
           \<and> length columns = length (sc_values nonRegion)
           \<and> (\<forall>c\<in>set columns. length (col_values c) = ri_regionCount regionInfo)
           \<and> (\<forall>ci<length columns. \<forall>ri<ri_regionCount regionInfo.
                 series (joinArray '':''
                    (assignOptional (map Elem (sc_values nonRegion ! ci))
                       (ri_regionDimensionIndex regionInfo) ri)) = None
                 \<longrightarrow> col_values (columns ! ci) ! ri = Null)"
proof -
  define n where "n = ri_regionCount regionInfo"
  define r where "r = ri_regionDimensionIndex regionInfo"
  have one: "\<exists>col. buildValueColumn_v0 nonRegion series regionInfo ci = Inr col
               \<and> length (col_values col) = n
               \<and> (\<forall>ri<n. series (joinArray '':''
                      (assignOptional (map Elem (sc_values nonRegion ! ci)) r ri)) = None
                     \<longrightarrow> col_values col ! ri = Null)"
    if ci: "ci < length (sc_values nonRegion)" for ci
  proof -
    from regionLoop_v0_cells [OF wf, of r "map Elem (sc_values nonRegion ! ci)" "[0..<n]"]
    obtain vs where vs: "regionLoop_v0 series r (map Elem (sc_values nonRegion ! ci)) [0..<n] = Inr vs"
      "length vs = n"
      "\<forall>k<n. observationCell series
                 (joinArray '':'' (assignOptional (map Elem (sc_values nonRegion ! ci)) r k))
               = Inr (vs ! k)"
      by auto
    have "\<forall>ri<n. series (joinArray '':''
                      (assignOptional (map Elem (sc_values nonRegion ! ci)) r ri)) = None
            \<longrightarrow> vs ! ri = Null"
      using vs(3) by (auto simp: observationCell_absent)
    then show ?thesis
      using ci names vs(1,2)
      by (simp add: buildValueColumn_v0_def elementOf_def bindE_def Let_def n_def r_def)
  qed
  then have "\<forall>ci\<in>set [0..<length (sc_values nonRegion)].
      \<exists>col. buildValueColumn_v0 nonRegion series regionInfo ci = Inr col"
    by (metis atLeastLessThan_iff set_upt)
  from mapE_total [OF this] obtain columns where
    cols: "buildValueColumns_v0 nonRegion series regionInfo = Inr columns"
      "length columns = length (sc_values nonRegion)"
      "\<forall>ci<length (sc_values nonRegion).
          buildValueColumn_v0 nonRegion series regionInfo ci = Inr (columns ! ci)"
    by (auto simp: buildValueColumns_v0_def)
  have each: "length (col_values (columns ! ci)) = n
      \<and> (\<forall>ri<n. series (joinArray '':''
                      (assignOptional (map Elem (sc_values nonRegion ! ci)) r ri)) = None
                     \<longrightarrow> col_values (columns ! ci) ! ri = Null)"
    if "ci < length columns" for ci
    using one [of ci] cols(2,3) that by auto
  have "\<forall>c\<in>set columns. length (col_values c) = n"
    using each by (auto simp: in_set_conv_nth)
  with cols(1,2) each show ?thesis
    unfolding n_def r_def by blast
qed

text \<open>On the catalogue that lists the measure before the region dimension, the earlier
  variant records the region dimension's own count and builds columns of three values.\<close>

lemma buildValueColumns_v0_measure_first:
  "ri_regionCount (calculateRegionDimensionInfo defaultItem measureFirstCatalogue) = 3
   \<and> buildValueColumns_v0
        \<lparr> sc_values = [[0, 0], [0, 1]], sc_names = [[[], ''Births''], [[], ''Deaths'']] \<rparr>
        measureFirstSeries (calculateRegionDimensionInfo defaultItem measureFirstCatalogue)
      = Inr [\<lparr> col_name = ''Births'', col_values = [Scalar 10, Scalar 20, Scalar 30],
               col_isActive = False \<rparr>,
             \<lparr> col_name = ''Deaths'', col_values = [Scalar 1, Scalar 2, Scalar 3],
               col_isActive = False \<rparr>]"
  by code_simp

section \<open>The registry built from a catalogue without a time-period dimension\<close>

lemma digitChar_inj: "a < 10 \<Longrightarrow> b < 10 \<Longrightarrow> digitChar a = digitChar b \<Longrightarrow> a = b"
proof -
  assume a: "a < 10" and b: "b < 10" and eq: "digitChar a = digitChar b"
  have d: "distinct ''0123456789''" by simp
  have l: "length ''0123456789'' = 10" by simp
  from eq show "a = b"
    unfolding digitChar_def using nth_eq_iff_index_eq [OF d, of a b] a b l by simp
qed

lemma digitChar_not_comma: "d < 10 \<Longrightarrow> digitChar d \<noteq> CHR '',''"
proof -
  assume "d < 10"
  then have "digitChar d \<in> set ''0123456789''"
    unfolding digitChar_def by (intro nth_mem) simp
  then show ?thesis by auto
qed

lemma numberToString_nonempty: "numberToString n \<noteq> []"
  by (subst numberToString.simps) simp

lemma numberToString_no_comma: "CHR '','' \<notin> set (numberToString n)"
proof (induction n rule: numberToString.induct)
  case (1 n)
  show ?case
  proof (cases "n < 10")
    case True
    then show ?thesis
      using digitChar_not_comma [of n] by (subst numberToString.simps) auto
  next
    case False
    then show ?thesis
      using 1 digitChar_not_comma [of "n mod 10"] by (subst numberToString.simps) auto
  qed
qed

lemma numberToString_inj: "numberToString n = numberToString m \<Longrightarrow> n = m"
proof (induction n arbitrary: m rule: numberToString.induct)
  case (1 n)
  show ?case
  proof (cases "n < 10")
    case n: True
    show ?thesis
    proof (cases "m < 10")
      case True
      with n 1(2) show ?thesis
        by (simp add: numberToString.simps [of n] numberToString.simps [of m] digitChar_inj)
    next
      case False
      with n 1(2) numberToString_nonempty [of "m div 10"] show ?thesis
        by (simp add: numberToString.simps [of n] numberToString.simps [of m])
    qed
  next
    case n: False
    show ?thesis
    proof (cases "m < 10")
      case True
      with n 1(2) numberToString_nonempty [of "n div 10"] show ?thesis
        by (simp add: numberToString.simps [of n] numberToString.simps [of m])
    next
      case False
      with n 1(2) have pre: "numberToString (n div 10) = numberToString (m div 10)"
        and dig: "digitChar (n mod 10) = digitChar (m mod 10)"
        by (simp_all add: numberToString.simps [of n] numberToString.simps [of m])
      from 1(1) [OF n pre] have "n div 10 = m div 10" .
      moreover from dig have "n mod 10 = m mod 10" by (simp add: digitChar_inj)
      ultimately show ?thesis by (metis div_mult_mod_eq)
    qed
  qed
qed

lemma split_at_separator:
  "c \<notin> set x \<Longrightarrow> c \<notin> set y \<Longrightarrow> x @ c # r = y @ c # r' \<Longrightarrow> x = y \<and> r = r'"
proof (induction x arbitrary: y)
  case Nil
  then show ?case by (cases y) auto
next
  case (Cons a x)
  then show ?case by (cases y) auto
qed

lemma join_nonempty: "x \<noteq> [] \<Longrightarrow> join sep (x # xs) \<noteq> []"
  by (cases xs) auto

lemma join_contains_separator: "c \<in> set (join [c] (x # y # ys))"
  by simp

lemma join_Cons: "xs \<noteq> [] \<Longrightarrow> join sep (x # xs) = x @ sep @ join sep xs"
  by (cases xs) simp_all

lemma join_inj:
  assumes "\<forall>x\<in>set xs. x \<noteq> [] \<and> c \<notin> set x" and "\<forall>y\<in>set ys. y \<noteq> [] \<and> c \<notin> set y"
    and "join [c] xs = join [c] ys"
  shows "xs = ys"
  using assms
proof (induction xs arbitrary: ys)
  case Nil
  show ?case
  proof (cases ys)
    case Nil
    then show ?thesis by simp
  next
    case (Cons y ys')
    from Nil.prems(3) have "join [c] ys = []" by simp
    moreover from Nil.prems(2) Cons have "y \<noteq> []" by simp
    ultimately show ?thesis using join_nonempty [of y "[c]" ys'] Cons by simp
  qed
next
  case (Cons x xs)
  from Cons.prems(1) have x: "x \<noteq> []" "c \<notin> set x" by simp_all
  show ?case
  proof (cases ys)
    case Nil
    with Cons.prems(3) have "join [c] (x # xs) = []" by simp
    with x(1) join_nonempty [of x "[c]" xs] show ?thesis by simp
  next
    case ys: (Cons y ys')
    from Cons.prems(2) ys have y: "y \<noteq> []" "c \<notin> set y" by simp_all
    have eq: "join [c] (x # xs) = join [c] (y # ys')"
      using Cons.prems(3) ys by simp
    show ?thesis
    proof (cases "xs = []")
      case True
      show ?thesis
      proof (cases "ys' = []")
        case True
        with eq \<open>xs = []\<close> ys show ?thesis by simp
      next
        case False
        from eq \<open>xs = []\<close> have "x = y @ [c] @ join [c] ys'"
          by (simp only: join.simps(2) join_Cons [OF False])
        then have "c \<in> set x" by simp
        with x(2) show ?thesis by simp
      qed
    next
      case xs: False
      show ?thesis
      proof (cases "ys' = []")
        case True
        from eq True have "x @ [c] @ join [c] xs = y"
          by (simp only: join.simps(2) join_Cons [OF xs])
        then have "c \<in> set y" by auto
        with y(2) show ?thesis by simp
      next
        case False
        from eq have "x @ [c] @ join [c] xs = y @ [c] @ join [c] ys'"
          by (simp only: join_Cons [OF xs] join_Cons [OF False])
        then have e: "x @ c # join [c] xs = y @ c # join [c] ys'" by simp
        from split_at_separator [OF x(2) y(2) e]
        have xy: "x = y" and rest: "join [c] xs = join [c] ys'" by simp_all
        have p1: "\<forall>x\<in>set xs. x \<noteq> [] \<and> c \<notin> set x" using Cons.prems(1) by simp
        have p2: "\<forall>y\<in>set ys'. y \<noteq> [] \<and> c \<notin> set y" using Cons.prems(2) ys by simp
        have "xs = ys'" by (rule Cons.IH [OF p1 p2 rest])
        with xy ys show ?thesis by simp
      qed
    qed
  qed
qed

lemma joinNumbers_inj: "joinNumbers '','' xs = joinNumbers '','' ys \<Longrightarrow> xs = ys"
proof -
  assume eq: "joinNumbers '','' xs = joinNumbers '','' ys"
  have a: "\<forall>x\<in>set (map numberToString xs). x \<noteq> [] \<and> CHR '','' \<notin> set x"
    by (simp add: numberToString_nonempty numberToString_no_comma)
  have b: "\<forall>y\<in>set (map numberToString ys). y \<noteq> [] \<and> CHR '','' \<notin> set y"
    by (simp add: numberToString_nonempty numberToString_no_comma)
  have c: "join [CHR '',''] (map numberToString xs) = join [CHR '',''] (map numberToString ys)"
    using eq by (simp add: joinNumbers_def)
  have "map numberToString xs = map numberToString ys"
    by (rule join_inj [OF a b c])
  moreover have "inj numberToString"
    by (rule injI) (rule numberToString_inj)
  ultimately show "xs = ys"
    by (simp add: inj_map_eq_map)
qed

lemma arrayProduct_product_lists: "arrayProduct pools = product_lists pools"
proof (induction pools)
  case Nil
  show ?case by simp
next
  case (Cons pool pools)
  have "concat (map (\<lambda>rest. [x # rest]) ys) = map ((#) x) ys" for x :: 'a and ys
    by (induction ys) simp_all
  with Cons show ?case by simp
qed

lemma arrayProduct_distinct:
  "\<forall>pool\<in>set pools. distinct pool \<Longrightarrow> distinct (arrayProduct pools)"
  unfolding arrayProduct_product_lists by (rule distinct_product_lists) simp

lemma arrayProduct_member:
  "t \<in> set (arrayProduct pools) \<longleftrightarrow> list_all2 (\<lambda>x pool. x \<in> set pool) t pools"
  unfolding arrayProduct_product_lists by (simp add: product_lists_set)

lemma mapE_map: "\<forall>x\<in>set xs. f x = Inr (g x) \<Longrightarrow> mapE f xs = Inr (map g xs)"
  by (induction xs) simp_all

lemma filterFrom_keep_all:
  assumes "\<forall>x\<in>set xs. x \<noteq> Hole" and "\<And>x j. p x j = Inr True"
  shows "filterFrom i p xs = Inr xs"
  using assms(1)
proof (induction xs arbitrary: i)
  case Nil
  show ?case by simp
next
  case (Cons x xs)
  then show ?case by (simp add: assms(2) bindE_def)
qed

lemma element_map_Elem: "i < length vs \<Longrightarrow> element (map Elem vs) i = Inr (vs ! i)"
  by (simp add: element_def)

lemma filterListFrom_nonTrivial:
  assumes "item_dimensionInfo item = Some di" and "di_values di = map Elem pools"
    and "i + length t \<le> length pools"
  shows "filterListFrom i (nonTrivialFilter item) t
           = Inr (map fst (filter (\<lambda>(x, pool). 1 < length pool) (zip t (drop i pools))))"
  using assms(3)
proof (induction t arbitrary: i)
  case Nil
  show ?case by simp
next
  case (Cons x t)
  then have i: "i < length pools" and rest: "Suc i + length t \<le> length pools" by simp_all
  have p: "nonTrivialFilter item x i = Inr (1 < length (pools ! i))"
    using assms(1,2) i by (simp add: nonTrivialFilter_def element_map_Elem bindE_def)
  have d: "drop i pools = pools ! i # drop (Suc i) pools"
    using i by (simp add: Cons_nth_drop_Suc)
  show ?case
    using Cons.IH [OF rest] p by (simp add: bindE_def d)
qed

lemma subtuple_inj_all:
  "\<forall>t t'. list_all2 (\<lambda>x pool. x \<in> set pool) t pools
      \<longrightarrow> list_all2 (\<lambda>x pool. x \<in> set pool) t' pools
      \<longrightarrow> map fst (filter (\<lambda>(x, pool). 1 < length pool) (zip t pools))
            = map fst (filter (\<lambda>(x, pool). 1 < length pool) (zip t' pools))
      \<longrightarrow> t = t'"
proof (induction pools)
  case Nil
  show ?case by simp
next
  case (Cons pool pools)
  show ?case
  proof (intro allI impI)
    fix t t'
    assume p1: "list_all2 (\<lambda>x pool. x \<in> set pool) t (pool # pools)"
      and p2: "list_all2 (\<lambda>x pool. x \<in> set pool) t' (pool # pools)"
      and p3: "map fst (filter (\<lambda>(x, pool). 1 < length pool) (zip t (pool # pools)))
                = map fst (filter (\<lambda>(x, pool). 1 < length pool) (zip t' (pool # pools)))"
    from p1 obtain x r where t: "t = x # r" and x: "x \<in> set pool"
      and r: "list_all2 (\<lambda>x pool. x \<in> set pool) r pools"
      by (auto simp: list_all2_Cons2)
    from p2 obtain x' r' where t': "t' = x' # r'" and x': "x' \<in> set pool"
      and r': "list_all2 (\<lambda>x pool. x \<in> set pool) r' pools"
      by (auto simp: list_all2_Cons2)
    have heads: "x = x'"
    proof (cases "1 < length pool")
      case True
      with p3 t t' show ?thesis by simp
    next
      case False
      with x obtain a where "pool = [a]"
        by (cases pool) (auto simp: Suc_lessI)
      with x x' show ?thesis by simp
    qed
    have tails: "map fst (filter (\<lambda>(x, pool). 1 < length pool) (zip r pools))
                = map fst (filter (\<lambda>(x, pool). 1 < length pool) (zip r' pools))"
      using p3 t t' by (cases "1 < length pool") simp_all
    from Cons.IH r r' tails have "r = r'" by blast
    with heads t t' show "t = t'" by simp
  qed
qed

lemma subtuple_inj:
  assumes "list_all2 (\<lambda>x pool. x \<in> set pool) t pools"
    and "list_all2 (\<lambda>x pool. x \<in> set pool) t' pools"
    and "map fst (filter (\<lambda>(x, pool). 1 < length pool) (zip t pools))
           = map fst (filter (\<lambda>(x, pool). 1 < length pool) (zip t' pools))"
  shows "t = t'"
  using subtuple_inj_all [of pools] assms by blast

lemma registry_distinct:
  assumes di: "item_dimensionInfo item = Some di" and vals: "di_values di = map Elem pools"
    and pools: "\<forall>pool\<in>set pools. distinct pool"
    and sd: "item_specialDimensions item = Some sd" and notime: "timePeriodDimensionIndex sd = None"
    and shown: "calculateShownDimensionCombinations item = Inr shown"
    and set: "setConceptsAndCombinations item shown = Inr item'"
  shows "\<exists>combinations. item_combinations item' = Some combinations
           \<and> distinct (map (joinNumbers '','') combinations)"
proof -
  let ?sub = "\<lambda>t. map fst (filter (\<lambda>(x, pool). 1 < length pool) (zip t pools))"
  have keep: "filterArray (getNonTimeDimensionFilter item) (di_values di) = Inr (map Elem pools)"
    unfolding filterArray_def vals
    by (rule filterFrom_keep_all) (auto simp: getNonTimeDimensionFilter_def sd notime)
  from shown have sv: "sc_values shown = arrayProduct pools"
    by (auto simp: calculateShownDimensionCombinations_def di keep bindE_def slotValues_map_Elem
        split: sum.splits)
  have each: "\<forall>t\<in>set (arrayProduct pools). filterListFrom 0 (nonTrivialFilter item) t = Inr (?sub t)"
  proof
    fix t assume "t \<in> set (arrayProduct pools)"
    then have "length t = length pools"
      by (auto simp: arrayProduct_member dest: list_all2_lengthD)
    then show "filterListFrom 0 (nonTrivialFilter item) t = Inr (?sub t)"
      using filterListFrom_nonTrivial [OF di vals, of 0 t] by simp
  qed
  from set obtain combinations where
    c: "mapE (filterListFrom 0 (nonTrivialFilter item)) (sc_values shown) = Inr combinations"
    and i: "item_combinations item' = Some combinations"
    by (auto simp: setConceptsAndCombinations_def di bindE_def split: sum.splits)
  from c have cs: "combinations = map ?sub (arrayProduct pools)"
    unfolding sv mapE_map [OF each] by simp
  have "inj_on ?sub (set (arrayProduct pools))"
    by (rule inj_onI) (auto simp: arrayProduct_member intro: subtuple_inj)
  then have "distinct combinations"
    unfolding cs using arrayProduct_distinct [OF pools] by (simp add: distinct_map)
  moreover have "inj_on (joinNumbers '','') (set combinations)"
    by (rule inj_onI) (rule joinNumbers_inj)
  ultimately have "distinct (map (joinNumbers '','') combinations)"
    by (simp add: distinct_map)
  with i show ?thesis by blast
qed

lemma assignIndex_in_range:
  "i < length xs \<Longrightarrow> length (assignIndex xs i v) = length xs
     \<and> (Hole \<notin> set xs \<longrightarrow> Hole \<notin> set (assignIndex xs i v))"
  by (auto simp: assignIndex_def dest: set_update_subset_insert [THEN subsetD])

lemma decode_values_dense:
  assumes "\<forall>d\<in>set ss. keyPosition d < n"
  shows "length (di_values (foldl decodeEntry (initialDimensionInfo n) ss)) = n
       \<and> Hole \<notin> set (di_values (foldl decodeEntry (initialDimensionInfo n) ss))"
  using assms
proof (induction ss rule: rev_induct)
  case Nil
  show ?case by (simp add: initialDimensionInfo_def)
next
  case (snoc d ds)
  then have ih: "length (di_values (foldl decodeEntry (initialDimensionInfo n) ds)) = n"
      "Hole \<notin> set (di_values (foldl decodeEntry (initialDimensionInfo n) ds))"
    and k: "keyPosition d < n" by simp_all
  have step: "di_values (decodeEntry r d)
      = assignIndex (di_values r) (keyPosition d) (range_js (length (dim_values d)))" for r
    by (simp add: decodeEntry_def Let_def)
  show ?case
    using assignIndex_in_range [of "keyPosition d" "di_values (foldl decodeEntry (initialDimensionInfo n) ds)"
        "range_js (length (dim_values d))"] ih k
    by (simp add: step)
qed

lemma removeIndex_dense:
  assumes "removeIndex idx r = Inr r'" and "Hole \<notin> set (di_values r)"
  shows "Hole \<notin> set (di_values r')"
proof (cases idx)
  case None
  with assms show ?thesis by (simp add: removeIndex_def)
next
  case (Some i)
  with assms(1) obtain vs where e: "element (di_values r) i = Inr vs"
    and r': "di_values r' = assignIndex (di_values r) i (take 1 vs)"
    by (auto simp: removeIndex_def bindE_def split: sum.splits)
  from e have "i < length (di_values r)"
    by (simp add: element_def split: if_splits)
  with assignIndex_in_range [of i "di_values r" "take 1 vs"] assms(2) r' show ?thesis by simp
qed

lemma decoder_dense:
  assumes keys: "\<forall>d\<in>set ss. keyPosition d < length ss"
    and run: "snd (calculateShownDimensionNamesAndValues ss specialDims) = Inr di"
  shows "\<exists>pools. di_values di = map Elem pools \<and> (\<forall>pool\<in>set pools. distinct pool)"
proof -
  define r0 where "r0 = foldl decodeEntry (initialDimensionInfo (length ss)) ss"
  have h0: "Hole \<notin> set (di_values r0)"
    unfolding r0_def using decode_values_dense [OF keys] by simp
  have h: "Hole \<notin> set (di_values di)"
  proof (cases specialDims)
    case None
    with run h0 show ?thesis
      by (simp add: calculateShownDimensionNamesAndValues_def Let_def r0_def)
  next
    case (Some sd)
    with run obtain r1 where
      s1: "removeIndex (regionDimensionIndex sd) r0 = Inr r1" and
      s2: "removeIndex (timePeriodDimensionIndex sd) r1 = Inr di"
      by (auto simp: calculateShownDimensionNamesAndValues_def Let_def r0_def bindE_def
          split: sum.splits)
    from removeIndex_dense [OF s2 removeIndex_dense [OF s1 h0]] show ?thesis .
  qed
  from decoder_shape [OF run] have
    shape: "\<forall>s\<in>set (di_values di). s = Hole \<or> (\<exists>m. s = Elem (range_js m))" by simp
  with h have "\<forall>s\<in>set (di_values di). \<exists>v. s = Elem v" by metis
  from slotValues_Elem [OF this] obtain pools where p: "di_values di = map Elem pools" by blast
  have "\<forall>pool\<in>set pools. distinct pool"
  proof
    fix pool assume "pool \<in> set pools"
    then have "Elem pool \<in> set (di_values di)" by (simp add: p)
    with shape obtain m where "pool = range_js m" by auto
    then show "distinct pool" by (simp add: range_js_def)
  qed
  with p show ?thesis by blast
qed

text \<open>For a catalogue whose key positions all lie below the number of entries and whose
  special dimensions hold no time-period dimension, the registry written by
  \<open>setConceptsAndCombinations\<close> has pairwise distinct entries, also as strings; by
  \<open>buildTotalColumns_distinct_registry\<close> the total column then sums exactly the value
  columns whose registry entry equals an active combination.\<close>

lemma registry_distinct_without_time_period:
  assumes keys: "\<forall>d\<in>set ss. keyPosition d < length ss"
    and run: "snd (calculateShownDimensionNamesAndValues ss (Some sd)) = Inr di"
    and notime: "timePeriodDimensionIndex sd = None"
    and di: "item_dimensionInfo item = Some di"
    and sd: "item_specialDimensions item = Some sd"
    and shown: "calculateShownDimensionCombinations item = Inr shown"
    and set: "setConceptsAndCombinations item shown = Inr item'"
  shows "\<exists>combinations. item_combinations item' = Some combinations
           \<and> distinct (map (joinNumbers '','') combinations)"
proof -
  from decoder_dense [OF keys run] obtain pools where
    "di_values di = map Elem pools" "\<forall>pool\<in>set pools. distinct pool" by blast
  then show ?thesis
    by (rule registry_distinct [OF di _ _ sd notime shown set])
qed

section \<open>The total column and the recompute controller on concrete inputs\<close>

text \<open>The end-to-end scenario of the spec: the region column, one column per measure with
  \<open>null\<close> where no observation exists, and the total of the two active measures.\<close>

lemma end_to_end_scenario:
  "loadAndBuildTable_then sumValues defaultItem birthsDeathsCatalogue birthsSeries =
     ([], Inr (defaultItem
        \<lparr> item_specialDimensions :=
            Some \<lparr> regionDimensionIndex = Some 0, regionTypeDimensionIndex = Some 1,
                   regionTypeCount = 1, timePeriodDimensionIndex = None \<rparr>,
          item_dimensionInfo :=
            Some \<lparr> di_values = [Elem [0], Elem [0], Elem [0, 1]],
                   di_names = [Elem [ [] ], Elem [ [] ], Elem [''Births'', ''Deaths'']],
                   di_ids = [Elem [''R1'', ''R2'', ''R3''], Elem [''LGA''], Elem [''BD_2'', ''BD_4'']],
                   di_dimensionNames = [Elem ''Region'', Elem ''Region type'', Elem ''Measure''],
                   di_dimensionIds = [Elem ''REGION'', Elem ''REGIONTYPE'', Elem ''MEASURE''] \<rparr>,
          item_combinations := Some [[0], [1]],
          item_concepts :=
            [\<lparr> concept_name = Elem ''Measure'',
               concept_items = [\<lparr> vc_name = ''Births'', vc_isActive = True \<rparr>,
                                \<lparr> vc_name = ''Deaths'', vc_isActive = True \<rparr>] \<rparr>],
          item_columns :=
            [\<lparr> col_name = ''lga_code'',
               col_values = [RegionId ''R1'', RegionId ''R2'', RegionId ''R3''],
               col_isActive = False \<rparr>,
             \<lparr> col_name = ''Births'', col_values = [Scalar 10, Null, Null], col_isActive = False \<rparr>,
             \<lparr> col_name = ''Deaths'', col_values = [Null, Null, Null], col_isActive = False \<rparr>,
             \<lparr> col_name = ''Total selected'',
               col_values = sumValues
                 [\<lparr> col_name = ''Births'', col_values = [Scalar 10, Null, Null],
                    col_isActive = False \<rparr>,
                  \<lparr> col_name = ''Deaths'', col_values = [Null, Null, Null],
                    col_isActive = False \<rparr>],
               col_isActive = True \<rparr>] \<rparr>))"
  by code_simp

text \<open>
  C7, with every child of a concept inactive. After the end-to-end scenario is loaded and
  both children of its only concept are toggled off, the list of active combinations is empty,
  and \<open>changedActiveItems\<close> still appends a total column: the sum of no columns.
\<close>

theorem total_column_without_active_combination:
  "arrayProduct (calculateActiveConceptValues (item_concepts
       (toggleItem 0 1 (toggleItem 0 0 (exampleLoad sumValues birthsDeathsCatalogue birthsSeries)))))
     = []
   \<and> changedActiveItems sumValues
        (toggleItem 0 1 (toggleItem 0 0 (exampleLoad sumValues birthsDeathsCatalogue birthsSeries)))
      = Inr ([''changedActiveItems''],
             UpdateColumns
               [\<lparr> col_name = ''lga_code'',
                  col_values = [RegionId ''R1'', RegionId ''R2'', RegionId ''R3''],
                  col_isActive = False \<rparr>,
                \<lparr> col_name = ''Births'', col_values = [Scalar 10, Null, Null],
                  col_isActive = False \<rparr>,
                \<lparr> col_name = ''Deaths'', col_values = [Null, Null, Null],
                  col_isActive = False \<rparr>,
                \<lparr> col_name = ''Total selected'', col_values = sumValues [],
                  col_isActive = True \<rparr>])"
  by code_simp

text \<open>With a dataflow URL, whatever request string was computed, the load is started with
  the item's own URL.\<close>

lemma changedActiveItems_loads_item_url:
  "dataflowUrl item = Some u \<Longrightarrow> changedActiveItems sumValues item = Inr (lines, eff)
     \<Longrightarrow> eff = LoadAndBuildTable (url item)"
  by (auto simp: changedActiveItems_def bindE_def Let_def split: sum.splits)

text \<open>
  C8, on an item loaded from a dataflow. For the item loaded from a dataflow with a
  two-valued measure, a singleton frequency and a region dimension, a change of the active
  items writes the extended URL \<open>http://x/data/DS/BD_2+BD_4.A./all\<close> to the console and
  starts the load with the item's own URL \<open>http://x/data/DS\<close>.
\<close>

theorem changedActiveItems_dataflow_url:
  "changedActiveItems sumValues (exampleDataflow frequencyCatalogue)
     = Inr ([''changedActiveItems'', ''Would download http://x/data/DS/BD_2+BD_4.A./all''],
            LoadAndBuildTable ''http://x/data/DS'')"
  by code_simp

text \<open>
  C9, on the spec's example and on catalogues with the time-period dimension first. The example of the spec
  gives \<open>BD_2+BD_4.A\<close>, and a region dimension in last place adds an empty token. When the
  time-period dimension comes before the region dimension, the position inside the filtered
  list no longer equals the region's key position: with the order time, region, measure the
  region's ids are joined and the measure is left empty (\<open>R1+R2.\<close> where the claim gives
  \<open>.BD_2+BD_4\<close>); with the order time, measure, region the function throws.
\<close>

theorem calculateDimensionRequestString_examples:
  "calculateDimensionRequestString requestExampleItem = Inr ''BD_2+BD_4.A''
   \<and> calculateDimensionRequestString (exampleDataflow frequencyCatalogue) = Inr ''BD_2+BD_4.A.''
   \<and> calculateDimensionRequestString (exampleDataflow timeRegionMeasureCatalogue) = Inr ''R1+R2.''
   \<and> calculateDimensionRequestString (exampleDataflow timeFirstCatalogue) = Inl TypeError"
  by code_simp

text \<open>
  C1, on the catalogue with two years and the time-period dimension at key position 0. The
  registry built by \<open>setConceptsAndCombinations\<close> holds the same sub-tuple \<open>[0]\<close> for both
  value columns. With both measures active (the second toggled off and on again) the active
  combinations are \<open>[0]\<close> and \<open>[1]\<close>. The sub-tuple of each of the two value columns
  string-equals the active combination \<open>[0]\<close>, so the columns that the spec names are both,
  and their element-wise sum is 110 and 220; \<open>changedActiveItems\<close> produces a total column
  of 10 and 20, the births column alone.
\<close>

theorem total_column_two_years:
  "item_combinations (exampleLoad sumValuesOfSpec twoYearsCatalogue twoYearsSeries) = Some [[0], [0]]
   \<and> map (joinNumbers '','') [[0], [0]] = [''0'', ''0'']
   \<and> arrayProduct (calculateActiveConceptValues (item_concepts
        (toggleItem 0 1 (toggleItem 0 1 (exampleLoad sumValuesOfSpec twoYearsCatalogue twoYearsSeries)))))
      = [[0], [1]]
   \<and> map (joinNumbers '','') [[0], [1]] = [''0'', ''1'']
   \<and> changedActiveItems sumValuesOfSpec
        (toggleItem 0 1 (toggleItem 0 1 (exampleLoad sumValuesOfSpec twoYearsCatalogue twoYearsSeries)))
      = Inr ([''changedActiveItems''],
             UpdateColumns
               [\<lparr> col_name = ''region_code'', col_values = [RegionId ''R1'', RegionId ''R2''],
                  col_isActive = False \<rparr>,
                \<lparr> col_name = ''Births'', col_values = [Scalar 10, Scalar 20],
                  col_isActive = False \<rparr>,
                \<lparr> col_name = ''Deaths'', col_values = [Scalar 100, Scalar 200],
                  col_isActive = False \<rparr>,
                \<lparr> col_name = ''Total selected'', col_values = [Scalar 10, Scalar 20],
                  col_isActive = True \<rparr>])
   \<and> matchingValueColumns
        (toggleItem 0 1 (toggleItem 0 1 (exampleLoad sumValuesOfSpec twoYearsCatalogue twoYearsSeries)))
      = [\<lparr> col_name = ''Births'', col_values = [Scalar 10, Scalar 20], col_isActive = False \<rparr>,
         \<lparr> col_name = ''Deaths'', col_values = [Scalar 100, Scalar 200], col_isActive = False \<rparr>]
   \<and> sumValuesOfSpec (matchingValueColumns
        (toggleItem 0 1 (toggleItem 0 1 (exampleLoad sumValuesOfSpec twoYearsCatalogue twoYearsSeries))))
      = [Scalar 110, Scalar 220]"
  by code_simp

end
